theory Spec2Isabelle
  imports Main "HOL-Library.Word"
begin

section \<open>The PNaCl translation coordinator\<close>

text \<open>
  The development embeds \<^verbatim>\<open>pnacl_coordinator.cc\<close> (class \<^verbatim>\<open>PnaclCoordinator\<close>):
  every member function becomes a function on a record of the coordinator's fields.
  A call on a collaborator (plugin, file system, downloader, translation thread, cache
  file) is appended to a trace; a callback made with \<^verbatim>\<open>callback_factory_.NewCallback\<close>
  is added to the list of pending callbacks, and \<^verbatim>\<open>CancelAll\<close> empties that list.
  Completion results (\<^verbatim>\<open>int32_t pp_error\<close>) and the offsets of the copy loop are integers:
  an offset never exceeds the length of the file being copied. The two \<^verbatim>\<open>int64_t\<close>
  counters that the code adds to with \<^verbatim>\<open>+=\<close>, \<^verbatim>\<open>pexe_bytes_compiled_\<close> and
  \<^verbatim>\<open>pexe_size_\<close>, wrap around as two's complement 64-bit values.
  The UMA histogram calls and \<^verbatim>\<open>PLUGIN_PRINTF\<close> logging have no effect on the
  coordinator and are left out.
\<close>

subsection \<open>Result codes\<close>

text \<open>
  Modelled from the spec: \<^verbatim>\<open>ppapi/c/pp_errors.h\<close> is not among the sources. The values
  are those of the PPAPI C interface; the coordinator relies on \<^verbatim>\<open>PP_OK\<close> being zero
  (a positive completion result is a byte count), on the error codes being negative,
  and on their being pairwise distinct.
\<close>

definition PP_OK :: int where "PP_OK = 0"
definition PP_OK_COMPLETIONPENDING :: int where "PP_OK_COMPLETIONPENDING = - 1"
definition PP_ERROR_FAILED :: int where "PP_ERROR_FAILED = - 2"
definition PP_ERROR_ABORTED :: int where "PP_ERROR_ABORTED = - 3"
definition PP_ERROR_NOACCESS :: int where "PP_ERROR_NOACCESS = - 7"
definition PP_ERROR_NOSPACE :: int where "PP_ERROR_NOSPACE = - 9"
definition PP_ERROR_NOQUOTA :: int where "PP_ERROR_NOQUOTA = - 10"
definition PP_ERROR_INPROGRESS :: int where "PP_ERROR_INPROGRESS = - 11"
definition PP_ERROR_FILENOTFOUND :: int where "PP_ERROR_FILENOTFOUND = - 20"
definition PP_ERROR_FILEEXISTS :: int where "PP_ERROR_FILEEXISTS = - 21"
definition PP_ERROR_NOTAFILE :: int where "PP_ERROR_NOTAFILE = - 24"

text \<open>The plugin error codes that the coordinator reports (\<^verbatim>\<open>enum PluginErrorCode\<close>).\<close>

datatype PluginErrorCode =
    ERROR_UNKNOWN
  | ERROR_PNACL_CACHE_OPEN_INPROGRESS
  | ERROR_PNACL_CACHE_OPEN_NOACCESS
  | ERROR_PNACL_CACHE_OPEN_NOQUOTA
  | ERROR_PNACL_CACHE_OPEN_NOSPACE
  | ERROR_PNACL_CACHE_OPEN_OTHER
  | ERROR_PNACL_CACHE_DIRECTORY_CREATE
  | ERROR_PNACL_CACHE_FILEOPEN_NOACCESS
  | ERROR_PNACL_CACHE_FILEOPEN_NOQUOTA
  | ERROR_PNACL_CACHE_FILEOPEN_NOSPACE
  | ERROR_PNACL_CACHE_FILEOPEN_NOTAFILE
  | ERROR_PNACL_CACHE_FILEOPEN_OTHER
  | ERROR_PNACL_CACHE_FETCH_NOACCESS
  | ERROR_PNACL_CACHE_FETCH_NOTFOUND
  | ERROR_PNACL_CACHE_FETCH_OTHER
  | ERROR_PNACL_CACHE_FINALIZE_COPY_NOQUOTA
  | ERROR_PNACL_CACHE_FINALIZE_COPY_NOSPACE
  | ERROR_PNACL_CACHE_FINALIZE_COPY_OTHER
  | ERROR_PNACL_CACHE_FINALIZE_RENAME_NOACCESS
  | ERROR_PNACL_CACHE_FINALIZE_RENAME_OTHER
  | ERROR_PNACL_PEXE_FETCH_ABORTED
  | ERROR_PNACL_PEXE_FETCH_NOACCESS
  | ERROR_PNACL_PEXE_FETCH_OTHER
  | ERROR_PNACL_THREAD_CREATE
  | ERROR_PNACL_CREATE_TEMP

record ErrorInfo =
  error_code :: PluginErrorCode
  message :: string

definition SetReport :: "PluginErrorCode \<Rightarrow> string \<Rightarrow> ErrorInfo" where
  "SetReport err_code msg = \<lparr>error_code = err_code, message = msg\<rparr>"

text \<open>Decimal output of an integer, as \<^verbatim>\<open>operator<<\<close> of a string stream prints it.\<close>

fun show_nat :: "nat \<Rightarrow> string" where
  "show_nat n =
     (if n < 10 then [char_of (48 + n)]
      else show_nat (n div 10) @ [char_of (48 + n mod 10)])"

declare show_nat.simps [simp del]

definition show_int :: "int \<Rightarrow> string" where
  "show_int i = (if i < 0 then CHR ''-'' # show_nat (nat (- i)) else show_nat (nat i))"

subsection \<open>Files\<close>

type_synonym byte = "8 word"

text \<open>
  Modelled from the spec: \<^verbatim>\<open>temporary_file.h\<close> (class \<^verbatim>\<open>TempFile\<close>) and the descriptor
  wrapper it hands out (\<^verbatim>\<open>nacl::DescWrapper\<close>) are not among the sources. A temporary
  file is its read wrapper: the bytes of the file, the current offset, and whether the
  descriptor fails its calls. \<^verbatim>\<open>Read\<close> returns the number of bytes read (0 at end of
  file, negative on failure), the bytes, and the descriptor with its offset advanced;
  \<^verbatim>\<open>Seek\<close> with \<^verbatim>\<open>SEEK_CUR\<close> returns the new offset or a negative value; \<^verbatim>\<open>Reset\<close>
  puts the offset back to 0, as the comment at its call in \<^verbatim>\<open>TranslateFinished\<close> says.
\<close>

record desc =
  d_data :: "byte list"
  d_pos :: int
  d_fail :: bool

definition desc_Read :: "desc \<Rightarrow> int \<Rightarrow> int \<times> byte list \<times> desc" where
  "desc_Read d n =
     (if d_fail d then (- 1, [], d)
      else let bs = take (nat n) (drop (nat (d_pos d)) (d_data d))
           in (int (length bs), bs, d\<lparr>d_pos := d_pos d + int (length bs)\<rparr>))"

definition desc_Seek_cur :: "desc \<Rightarrow> int \<Rightarrow> int \<times> desc" where
  "desc_Seek_cur d delta =
     (if d_fail d \<or> d_pos d + delta < 0 then (- 1, d)
      else (d_pos d + delta, d\<lparr>d_pos := d_pos d + delta\<rparr>))"

definition new_TempFile :: desc where
  "new_TempFile = \<lparr>d_data = [], d_pos = 0, d_fail = False\<rparr>"

text \<open>
  Modelled from the spec: \<^verbatim>\<open>local_temp_file.h\<close> (class \<^verbatim>\<open>LocalTempFile\<close>) is not among
  the sources. A cache file is its name in the \<^verbatim>\<open>/.pnacl\<close> directory (a random scratch
  name, or the cache identity), the bytes on disk, the write that is in flight on its
  \<^verbatim>\<open>write_file_io()\<close> (offset and buffer), and its read wrapper once the file is open
  for reading.
\<close>

datatype cache_name = ScratchName | CacheIdentity string

record LocalTempFile =
  lt_name :: cache_name
  lt_data :: "byte list"
  lt_inflight :: "(int \<times> byte list) option"
  lt_read :: "desc option"

definition new_LocalTempFile :: "cache_name \<Rightarrow> LocalTempFile" where
  "new_LocalTempFile nm = \<lparr>lt_name = nm, lt_data = [], lt_inflight = None, lt_read = None\<rparr>"

definition kCopyBufSize :: int where
  "kCopyBufSize = 512 * 2 ^ 10"

subsection \<open>Callbacks, collaborator calls and the coordinator's fields\<close>

text \<open>
  One constructor for each member function that is bound by \<^verbatim>\<open>NewCallback\<close>; the
  arguments are the values bound at creation.
\<close>

datatype callback =
    CB_ResourceInfoWasRead
  | CB_ResourcesDidLoad
  | CB_FileSystemDidOpen
  | CB_DirectoryWasCreated
  | CB_ObjectFileDidOpen
  | CB_BitcodeStreamDidOpen
  | CB_NexeFdDidOpen
  | CB_CachedFileDidOpen
  | CB_BitcodeStreamDidFinish
  | CB_RunTranslate
  | CB_TranslateFinished
  | CB_CachedNexeOpenedForWrite
  | CB_DidCopyNexeToCachePartial int int
  | CB_CorruptCacheFileWasDeleted int
  | CB_NexeFileWasRenamed
  | CB_NexeReadDidOpen

datatype length_computable = LENGTH_IS_COMPUTABLE | LENGTH_IS_NOT_COMPUTABLE

datatype op =
    Plugin_ReportLoadError ErrorInfo
  | CallbackFactory_CancelAll
  | TranslateNotifyCallback_Run int
  | Plugin_EnqueueProgressEvent string length_computable int int
  | Plugin_ReportTranslationFinished
  | Plugin_GetNexeFd string
  | Resources_ReadResourceInfo
  | Resources_StartLoad
  | FileSystem_Open
  | DirRef_MakeDirectory
  | Downloader_OpenStream string
  | Downloader_FinishStreaming
  | TranslateThread_PutBytes
  | TranslateThread_AbortSubprocesses
  | TranslateThread_RunTranslate
  | ObjFile_Open
  | TempNexeFile_Open bool
  | TempNexeFile_Reset
  | CachedNexeFile_OpenRead
  | CachedNexeFile_OpenWrite
  | CachedNexeFile_Write int "byte list"
  | CachedNexeFile_Delete
  | CachedNexeFile_Rename string
  | CachedNexeFile_FinishRename

datatype fault = CheckFailed | NullDereference

record coordinator =
  translate_finish_error :: int
  error_info :: ErrorInfo
  pexe_url :: string
  cache_validators :: string
  use_new_cache :: bool
  is_cache_hit :: bool
  error_already_reported :: bool
  off_the_record :: bool
  pexe_size :: int
  pexe_bytes_compiled :: int
  expected_pexe_size :: int
  dir_ref :: bool
  streaming_downloader :: bool
  translate_thread :: bool
  obj_file :: bool
  temp_nexe_file :: "desc option"
  cached_nexe_file :: "LocalTempFile option"
  translated_fd :: "desc option"
  pending :: "callback list"
  trace :: "op list"
  fault :: "fault option"

text \<open>
  What the coordinator reads synchronously from its collaborators during one request.
  \<^verbatim>\<open>PnaclOptions\<close>, \<^verbatim>\<open>NaClHttpResponseHeaders\<close>, \<^verbatim>\<open>FileDownloader\<close> and the browser
  interface are not among the sources, so their answers are parameters:
  \<open>has_cache_key\<close> and \<open>get_cache_key\<close> are \<^verbatim>\<open>PnaclOptions::HasCacheKey\<close> and
  \<^verbatim>\<open>GetCacheKey\<close> as functions of the cache validators; \<open>response_no_store\<close> and
  \<open>response_validators\<close> are what the header parser returns; \<open>nexe_output\<close> is what
  the translator writes to the temporary nexe file and \<open>cached_artifact\<close> the bytes of
  a committed cache entry; \<open>near_end_of_stream\<close> is the margin of
  \<open>ShouldDelayProgressEvent\<close> below.
\<close>

record env =
  has_cache_key :: "string \<Rightarrow> bool"
  get_cache_key :: "string \<Rightarrow> string"
  file_system_open_result :: int
  translate_thread_allocated :: bool
  open_stream_ok :: bool
  response_no_store :: bool
  response_validators :: string
  downloader_url :: string
  get_nexe_fd_result :: int
  get_nexe_fd_is_hit :: bool
  set_existing_fd_ok :: bool
  nexe_output :: "byte list"
  cached_artifact :: "byte list"
  near_end_of_stream :: "int \<Rightarrow> int \<Rightarrow> bool"

definition emit :: "op \<Rightarrow> coordinator \<Rightarrow> coordinator" where
  "emit x s = s\<lparr>trace := trace s @ [x]\<rparr>"

definition NewCallback :: "callback \<Rightarrow> coordinator \<Rightarrow> coordinator" where
  "NewCallback cb s = s\<lparr>pending := pending s @ [cb]\<rparr>"

definition crash :: "fault \<Rightarrow> coordinator \<Rightarrow> coordinator" where
  "crash f s = s\<lparr>fault := Some f\<rparr>"

subsection \<open>Error exit\<close>

definition ExitWithError :: "coordinator \<Rightarrow> coordinator" where
  "ExitWithError s =
     (let s1 = emit (Plugin_ReportLoadError (error_info s)) s;
          s2 = (emit CallbackFactory_CancelAll s1)\<lparr>pending := []\<rparr>
      in if \<not> error_already_reported s2
         then emit (TranslateNotifyCallback_Run PP_ERROR_FAILED)
                (s2\<lparr>error_already_reported := True\<rparr>)
         else s2)"

definition ReportNonPpapiError :: "coordinator \<Rightarrow> PluginErrorCode \<Rightarrow> string \<Rightarrow> coordinator" where
  "ReportNonPpapiError s err_code msg =
     ExitWithError (s\<lparr>error_info := SetReport err_code msg\<rparr>)"

definition ppapi_message :: "string \<Rightarrow> int \<Rightarrow> string" where
  "ppapi_message msg pp_error =
     ''PnaclCoordinator: '' @ msg @ '' (pp_error='' @ show_int pp_error @ '').''"

definition ReportPpapiError ::
  "coordinator \<Rightarrow> PluginErrorCode \<Rightarrow> int \<Rightarrow> string \<Rightarrow> coordinator" where
  "ReportPpapiError s err_code pp_error msg =
     ExitWithError (s\<lparr>error_info := SetReport err_code (ppapi_message msg pp_error)\<rparr>)"

subsection \<open>From the translated nexe to the caller\<close>

definition NexeReadDidOpen :: "coordinator \<Rightarrow> int \<Rightarrow> coordinator" where
  "NexeReadDidOpen s pp_error =
     (if pp_error \<noteq> PP_OK then
        (if pp_error = PP_ERROR_FILENOTFOUND then
           ReportPpapiError s ERROR_PNACL_CACHE_FETCH_NOTFOUND pp_error
             ''Failed to open translated nexe (not found).''
         else if pp_error = PP_ERROR_NOACCESS then
           ReportPpapiError s ERROR_PNACL_CACHE_FETCH_NOACCESS pp_error
             ''Failed to open translated nexe (no access).''
         else
           ReportPpapiError s ERROR_PNACL_CACHE_FETCH_OTHER pp_error
             ''Failed to open translated nexe.'')
      else
        (case cached_nexe_file s of
           Some c \<Rightarrow>
             emit (TranslateNotifyCallback_Run pp_error)
               (s\<lparr>translated_fd := lt_read c,
                  cached_nexe_file := Some (c\<lparr>lt_read := None\<rparr>)\<rparr>)
         | None \<Rightarrow>
             (case temp_nexe_file s of
                None \<Rightarrow> crash NullDereference s
              | Some f \<Rightarrow>
                  emit (TranslateNotifyCallback_Run pp_error) (s\<lparr>translated_fd := Some f\<rparr>))))"

definition NexeFileWasRenamed :: "coordinator \<Rightarrow> int \<Rightarrow> coordinator" where
  "NexeFileWasRenamed s pp_error =
     (if pp_error \<noteq> PP_OK \<and> pp_error = PP_ERROR_NOACCESS then
        ReportPpapiError s ERROR_PNACL_CACHE_FINALIZE_RENAME_NOACCESS pp_error
          ''Failed to finalize cached translation (no access).''
      else if pp_error \<noteq> PP_OK \<and> pp_error \<noteq> PP_ERROR_FILEEXISTS then
        ReportPpapiError s ERROR_PNACL_CACHE_FINALIZE_RENAME_OTHER pp_error
          ''Failed to finalize cached translation.''
      else
        (case cached_nexe_file s of
           None \<Rightarrow> crash NullDereference s
         | Some c \<Rightarrow>
             NewCallback CB_NexeReadDidOpen
               (emit CachedNexeFile_OpenRead (emit CachedNexeFile_FinishRename s))))"

definition CorruptCacheFileWasDeleted :: "coordinator \<Rightarrow> int \<Rightarrow> int \<Rightarrow> coordinator" where
  "CorruptCacheFileWasDeleted s delete_pp_error orig_pp_error =
     (if orig_pp_error = PP_ERROR_NOQUOTA then
        ReportPpapiError s ERROR_PNACL_CACHE_FINALIZE_COPY_NOQUOTA orig_pp_error
          ''Failed to copy translated nexe to cache (no quota).''
      else if orig_pp_error = PP_ERROR_NOSPACE then
        ReportPpapiError s ERROR_PNACL_CACHE_FINALIZE_COPY_NOSPACE orig_pp_error
          ''Failed to copy translated nexe to cache (no space).''
      else
        ReportPpapiError s ERROR_PNACL_CACHE_FINALIZE_COPY_OTHER orig_pp_error
          ''Failed to copy translated nexe to cache.'')"

definition NexeWasCopiedToCache :: "env \<Rightarrow> coordinator \<Rightarrow> int \<Rightarrow> coordinator" where
  "NexeWasCopiedToCache e s pp_error =
     (case cached_nexe_file s of
        None \<Rightarrow> crash NullDereference s
      | Some c \<Rightarrow>
          if pp_error \<noteq> PP_OK then
            NewCallback (CB_CorruptCacheFileWasDeleted pp_error) (emit CachedNexeFile_Delete s)
          else
            NewCallback CB_NexeFileWasRenamed
              (emit (CachedNexeFile_Rename (get_cache_key e (cache_validators s))) s))"

subsection \<open>Copying the translated nexe into the cache\<close>

text \<open>
  The code that reads the next buffer from \<^verbatim>\<open>temp_nexe_file_\<close> and issues the write of
  it at a given offset occurs twice in the source, at the end of
  \<^verbatim>\<open>CachedNexeOpenedForWrite\<close> (offset 0) and at the end of
  \<^verbatim>\<open>DidCopyNexeToCachePartial\<close> (offset \<^verbatim>\<open>next_offset\<close>); it is one function here.
\<close>

definition CopyNextChunk :: "env \<Rightarrow> coordinator \<Rightarrow> int \<Rightarrow> coordinator" where
  "CopyNextChunk e s offset =
     (case temp_nexe_file s of
        None \<Rightarrow> crash NullDereference s
      | Some f \<Rightarrow>
          (case desc_Read f kCopyBufSize of
             (num_read, buf, f') \<Rightarrow>
               let s1 = s\<lparr>temp_nexe_file := Some f'\<rparr>
               in if num_read = 0 then NexeWasCopiedToCache e s1 PP_OK
                  else if num_read < 0 then NexeWasCopiedToCache e s1 PP_ERROR_FAILED
                  else (case cached_nexe_file s1 of
                          None \<Rightarrow> crash NullDereference s1
                        | Some c \<Rightarrow>
                            emit (CachedNexeFile_Write offset buf)
                              (NewCallback (CB_DidCopyNexeToCachePartial num_read offset)
                                 (s1\<lparr>cached_nexe_file :=
                                       Some (c\<lparr>lt_inflight := Some (offset, buf)\<rparr>)\<rparr>)))))"

definition DidCopyNexeToCachePartial ::
  "env \<Rightarrow> coordinator \<Rightarrow> int \<Rightarrow> int \<Rightarrow> int \<Rightarrow> coordinator" where
  "DidCopyNexeToCachePartial e s pp_error num_read_prev cur_offset =
     (if pp_error = PP_OK then NexeWasCopiedToCache e s PP_OK
      else if pp_error < PP_OK then NexeWasCopiedToCache e s pp_error
      else
        (case temp_nexe_file s of
           None \<Rightarrow> crash NullDereference s
         | Some f \<Rightarrow>
             if pp_error \<noteq> num_read_prev then
               (if \<not> pp_error < num_read_prev then crash CheckFailed s
                else
                  (case desc_Seek_cur f (pp_error - num_read_prev) of
                     (seek_result, f') \<Rightarrow>
                       let s1 = s\<lparr>temp_nexe_file := Some f'\<rparr>
                       in if seek_result < 0 then NexeWasCopiedToCache e s1 PP_ERROR_FAILED
                          else CopyNextChunk e s1 (cur_offset + pp_error)))
             else CopyNextChunk e s (cur_offset + pp_error)))"

definition CachedNexeOpenedForWrite :: "env \<Rightarrow> coordinator \<Rightarrow> int \<Rightarrow> coordinator" where
  "CachedNexeOpenedForWrite e s pp_error =
     (if pp_error \<noteq> PP_OK then
        (if pp_error = PP_ERROR_NOACCESS then
           ReportPpapiError s ERROR_PNACL_CACHE_FILEOPEN_NOACCESS pp_error
             ''PNaCl translation cache failed to open file for write (no access).''
         else if pp_error = PP_ERROR_NOQUOTA then
           ReportPpapiError s ERROR_PNACL_CACHE_FILEOPEN_NOQUOTA pp_error
             ''PNaCl translation cache failed to open file for write (no quota).''
         else if pp_error = PP_ERROR_NOSPACE then
           ReportPpapiError s ERROR_PNACL_CACHE_FILEOPEN_NOSPACE pp_error
             ''PNaCl translation cache failed to open file for write (no space).''
         else if pp_error = PP_ERROR_NOTAFILE then
           ReportPpapiError s ERROR_PNACL_CACHE_FILEOPEN_NOTAFILE pp_error
             ''PNaCl translation cache failed to open file for write.  File already exists as a directory.''
         else
           ReportPpapiError s ERROR_PNACL_CACHE_FILEOPEN_OTHER pp_error
             ''PNaCl translation cache failed to open file for write.'')
      else CopyNextChunk e s 0)"

subsection \<open>Progress events and the end of translation\<close>

text \<open>
  Addition on \<^verbatim>\<open>int64_t\<close> as the compiled code performs it: the sum is taken modulo
  \<open>2 ^ 64\<close> into the range from \<open>- (2 ^ 63)\<close> to \<open>2 ^ 63 - 1\<close>.
\<close>

definition int64_wrap :: "int \<Rightarrow> int" where
  "int64_wrap x = (x + 2 ^ 63) mod 2 ^ 64 - 2 ^ 63"

text \<open>
  Modelled from the spec: \<^verbatim>\<open>pnacl_coordinator.h\<close>, which defines
  \<^verbatim>\<open>ExpectedProgressKnown\<close> and \<^verbatim>\<open>ShouldDelayProgressEvent\<close>, is not among the sources.
  The expected total size is unknown until the fetcher has been asked for it; the
  constructor in the source starts \<^verbatim>\<open>expected_pexe_size_\<close> at -1, which is taken as
  the unknown value.
\<close>

definition ExpectedProgressKnown :: "coordinator \<Rightarrow> bool" where
  "ExpectedProgressKnown s = (expected_pexe_size s \<noteq> - 1)"

text \<open>
  Modelled from the spec: once the total expected size is known, progress events near
  the end of the stream are withheld, and the event that reports the whole expected
  size is withheld until \<^verbatim>\<open>TranslateFinished\<close>. How near the end counts as near is not
  said, so it is the parameter \<open>near_end_of_stream\<close>, a predicate on the bytes compiled
  and the expected size.
\<close>

definition ShouldDelayProgressEvent :: "env \<Rightarrow> coordinator \<Rightarrow> bool" where
  "ShouldDelayProgressEvent e s =
     (expected_pexe_size s \<le> pexe_bytes_compiled s \<or>
      near_end_of_stream e (pexe_bytes_compiled s) (expected_pexe_size s))"

definition TranslateFinished :: "env \<Rightarrow> coordinator \<Rightarrow> int \<Rightarrow> coordinator" where
  "TranslateFinished e s pp_error =
     (if translate_finish_error s \<noteq> PP_OK then ExitWithError s
      else if pp_error \<noteq> PP_OK then ExitWithError s
      else
        let s1 = (if ExpectedProgressKnown s
                  then emit (Plugin_EnqueueProgressEvent (pexe_url s) LENGTH_IS_COMPUTABLE
                               (expected_pexe_size s) (expected_pexe_size s))
                         (s\<lparr>pexe_bytes_compiled := expected_pexe_size s\<rparr>)
                  else s)
        in if \<not> translate_thread s1 then crash NullDereference s1
           else
             (case temp_nexe_file s1 of
                None \<Rightarrow> crash NullDereference s1
              | Some f \<Rightarrow>
                  let s2 = emit TempNexeFile_Reset (s1\<lparr>temp_nexe_file := Some (f\<lparr>d_pos := 0\<rparr>)\<rparr>)
                  in if use_new_cache s2 then
                       NexeReadDidOpen (emit Plugin_ReportTranslationFinished s2) PP_OK
                     else if has_cache_key e (cache_validators s2) \<and> cached_nexe_file s2 \<noteq> None
                     then
                       NewCallback CB_CachedNexeOpenedForWrite
                         (emit CachedNexeFile_OpenWrite
                            (s2\<lparr>cached_nexe_file := Some (new_LocalTempFile ScratchName)\<rparr>))
                     else NexeReadDidOpen s2 PP_OK))"

definition BitcodeGotCompiled :: "env \<Rightarrow> coordinator \<Rightarrow> int \<Rightarrow> int \<Rightarrow> int \<Rightarrow> coordinator" where
  \<comment> \<open>\<open>total_size\<close> is the expected size that \<^verbatim>\<open>GetDownloadProgress\<close> answers\<close>
  "BitcodeGotCompiled e s pp_error bytes_compiled total_size =
     (let s1 = s\<lparr>pexe_bytes_compiled := int64_wrap (pexe_bytes_compiled s + bytes_compiled)\<rparr>
      in if \<not> ExpectedProgressKnown s1 \<and> \<not> streaming_downloader s1
         then crash NullDereference s1
         else
           let s2 = (if \<not> ExpectedProgressKnown s1 then s1\<lparr>expected_pexe_size := total_size\<rparr> else s1)
           in if ExpectedProgressKnown s2 then
                (if \<not> ShouldDelayProgressEvent e s2 then
                   emit (Plugin_EnqueueProgressEvent (pexe_url s2) LENGTH_IS_COMPUTABLE
                           (pexe_bytes_compiled s2) (expected_pexe_size s2)) s2
                 else s2)
              else
                emit (Plugin_EnqueueProgressEvent (pexe_url s2) LENGTH_IS_NOT_COMPUTABLE
                        (pexe_bytes_compiled s2) (expected_pexe_size s2)) s2)"

subsection \<open>Streaming the bitcode\<close>

definition BitcodeStreamDidFinish :: "coordinator \<Rightarrow> int \<Rightarrow> coordinator" where
  "BitcodeStreamDidFinish s pp_error =
     (if pp_error \<noteq> PP_OK then
        let s1 = s\<lparr>translate_finish_error := pp_error\<rparr>;
            s2 = (if pp_error = PP_ERROR_ABORTED
                  then s1\<lparr>error_info := SetReport ERROR_PNACL_PEXE_FETCH_ABORTED
                            ''PnaclCoordinator: pexe load failed (aborted).''\<rparr>
                  else s1);
            s3 = (if pp_error = PP_ERROR_NOACCESS
                  then s2\<lparr>error_info := SetReport ERROR_PNACL_PEXE_FETCH_NOACCESS
                            ''PnaclCoordinator: pexe load failed (no access).''\<rparr>
                  else s2\<lparr>error_info := SetReport ERROR_PNACL_PEXE_FETCH_OTHER
                            (''PnaclCoordinator: pexe load failed (pp_error=''
                               @ show_int pp_error @ '').'')\<rparr>)
        in if \<not> translate_thread s3 then crash NullDereference s3
           else emit TranslateThread_AbortSubprocesses s3
      else s)"

definition BitcodeStreamGotData :: "coordinator \<Rightarrow> int \<Rightarrow> bool \<Rightarrow> coordinator" where
  \<comment> \<open>\<open>has_data\<close>: the \<^verbatim>\<open>FileStreamData\<close> pointer is not null\<close>
  "BitcodeStreamGotData s pp_error has_data =
     (if \<not> translate_thread s then crash NullDereference s
      else
        let s1 = emit TranslateThread_PutBytes s
        in if has_data \<and> pp_error > 0
           then s1\<lparr>pexe_size := int64_wrap (pexe_size s1 + pp_error)\<rparr>
           else s1)"

definition CachedFileDidOpen :: "coordinator \<Rightarrow> int \<Rightarrow> coordinator" where
  "CachedFileDidOpen s pp_error =
     (if pp_error = PP_OK then NexeReadDidOpen (s\<lparr>streaming_downloader := False\<rparr>) PP_OK
      else if \<not> streaming_downloader s then crash NullDereference s
      else NewCallback CB_BitcodeStreamDidFinish (emit Downloader_FinishStreaming s))"

definition NexeFdDidOpen :: "env \<Rightarrow> coordinator \<Rightarrow> int \<Rightarrow> coordinator" where
  "NexeFdDidOpen e s pp_error =
     (if pp_error < PP_OK then
        ReportPpapiError s ERROR_PNACL_CREATE_TEMP pp_error ''GetNexeFd failed''
      else
        let s1 = s\<lparr>temp_nexe_file :=
                     Some (new_TempFile\<lparr>d_data := (if is_cache_hit s then cached_artifact e else [])\<rparr>)\<rparr>
        in if \<not> set_existing_fd_ok e then
             ReportNonPpapiError s1 ERROR_PNACL_CREATE_TEMP
               ''PnaclCoordinator: Got bad temp file handle from GetNexeFd''
           else if is_cache_hit s1 then
             NewCallback CB_NexeReadDidOpen
               (emit (TempNexeFile_Open False) (s1\<lparr>streaming_downloader := False\<rparr>))
           else
             let s2 = NewCallback CB_ObjectFileDidOpen (emit ObjFile_Open (s1\<lparr>obj_file := True\<rparr>))
             in if \<not> streaming_downloader s2 then crash NullDereference s2
                else NewCallback CB_BitcodeStreamDidFinish (emit Downloader_FinishStreaming s2))"

definition BitcodeStreamDidOpen :: "env \<Rightarrow> coordinator \<Rightarrow> int \<Rightarrow> coordinator" where
  "BitcodeStreamDidOpen e s pp_error =
     (if pp_error \<noteq> PP_OK then
        let s1 = BitcodeStreamDidFinish s pp_error
        in if use_new_cache s1 then TranslateFinished e s1 pp_error else s1
      else if \<not> off_the_record s then
        (if response_no_store e \<or> response_validators e = [] then
           CachedFileDidOpen (s\<lparr>cache_validators := []\<rparr>) PP_ERROR_FAILED
         else
           let s1 = s\<lparr>cache_validators := response_validators e @ downloader_url e\<rparr>
           in if use_new_cache s1 then
                let s2 = emit (Plugin_GetNexeFd (get_cache_key e (cache_validators s1)))
                           (NewCallback CB_NexeFdDidOpen
                              (s1\<lparr>is_cache_hit := get_nexe_fd_is_hit e\<rparr>))
                in if get_nexe_fd_result e < PP_OK_COMPLETIONPENDING then
                     ReportPpapiError s2 ERROR_PNACL_CREATE_TEMP (get_nexe_fd_result e)
                       ''Call to GetNexeFd failed''
                   else s2
              else
                NewCallback CB_CachedFileDidOpen
                  (emit CachedNexeFile_OpenRead
                     (s1\<lparr>cached_nexe_file :=
                           Some (new_LocalTempFile
                                   (CacheIdentity (get_cache_key e (cache_validators s1))))\<rparr>)))
      else CachedFileDidOpen s PP_ERROR_FAILED)"

definition OpenBitcodeStream :: "env \<Rightarrow> coordinator \<Rightarrow> coordinator" where
  "OpenBitcodeStream e s =
     (let s1 = s\<lparr>streaming_downloader := True\<rparr>;
          s2 = s1\<lparr>translate_thread := translate_thread_allocated e\<rparr>
      in if \<not> translate_thread s2 then
           ReportNonPpapiError s2 ERROR_PNACL_THREAD_CREATE
             ''PnaclCoordinator: could not allocate translation thread.''
         else
           let s3 = (if \<not> use_new_cache s2
                     then NewCallback CB_ObjectFileDidOpen (emit ObjFile_Open (s2\<lparr>obj_file := True\<rparr>))
                     else s2);
               s4 = emit (Downloader_OpenStream (pexe_url s3)) (NewCallback CB_BitcodeStreamDidOpen s3)
           in if \<not> open_stream_ok e then
                ReportNonPpapiError s4 ERROR_PNACL_PEXE_FETCH_OTHER
                  (''PnaclCoordinator: failed to open stream '' @ pexe_url s4)
              else s4)"

subsection \<open>Start of a request: resources, file system, cache directory\<close>

definition DirectoryWasCreated :: "env \<Rightarrow> coordinator \<Rightarrow> int \<Rightarrow> coordinator" where
  "DirectoryWasCreated e s pp_error =
     (if pp_error \<noteq> PP_ERROR_FILEEXISTS \<and> pp_error \<noteq> PP_OK then
        (if pp_error = PP_ERROR_NOACCESS then
           ReportPpapiError s ERROR_PNACL_CACHE_DIRECTORY_CREATE pp_error
             ''PNaCl translation cache directory creation/check failed (no access).''
         else
           ReportPpapiError s ERROR_PNACL_CACHE_DIRECTORY_CREATE pp_error
             ''PNaCl translation cache directory creation/check failed.'')
      else OpenBitcodeStream e s)"

definition FileSystemDidOpen :: "coordinator \<Rightarrow> int \<Rightarrow> coordinator" where
  "FileSystemDidOpen s pp_error =
     (if pp_error \<noteq> PP_OK \<and> pp_error = PP_ERROR_NOACCESS then
        ReportPpapiError s ERROR_PNACL_CACHE_OPEN_NOACCESS pp_error
          ''File system for PNaCl translation cache failed to open (no access).''
      else if pp_error \<noteq> PP_OK \<and> pp_error = PP_ERROR_NOQUOTA then
        ReportPpapiError s ERROR_PNACL_CACHE_OPEN_NOQUOTA pp_error
          ''File system for PNaCl translation cache failed to open (no quota).''
      else if pp_error \<noteq> PP_OK \<and> pp_error = PP_ERROR_NOSPACE then
        ReportPpapiError s ERROR_PNACL_CACHE_OPEN_NOSPACE pp_error
          ''File system for PNaCl translation cache failed to open (no space).''
      else
        let s1 = (if pp_error \<noteq> PP_OK
                  then ReportPpapiError s ERROR_PNACL_CACHE_OPEN_OTHER pp_error
                         ''File system for PNaCl translation cache failed to open.''
                  else s)
        in NewCallback CB_DirectoryWasCreated (emit DirRef_MakeDirectory (s1\<lparr>dir_ref := True\<rparr>)))"

definition ResourcesDidLoad :: "env \<Rightarrow> coordinator \<Rightarrow> int \<Rightarrow> coordinator" where
  "ResourcesDidLoad e s pp_error =
     (if pp_error \<noteq> PP_OK then s
      else if \<not> off_the_record s then
        (if use_new_cache s then OpenBitcodeStream e s
         else
           let s1 = emit FileSystem_Open (NewCallback CB_FileSystemDidOpen s)
           in if file_system_open_result e \<noteq> PP_OK_COMPLETIONPENDING then
                (if pp_error = PP_ERROR_INPROGRESS then
                   ReportPpapiError s1 ERROR_PNACL_CACHE_OPEN_INPROGRESS pp_error
                     ''File system for PNaCl translation cache failed to open (in progress).''
                 else
                   ReportPpapiError s1 ERROR_PNACL_CACHE_OPEN_OTHER pp_error
                     ''File system for PNaCl translation cache failed to open.'')
              else s1)
      else OpenBitcodeStream e s)"

definition ResourceInfoWasRead :: "coordinator \<Rightarrow> int \<Rightarrow> coordinator" where
  "ResourceInfoWasRead s pp_error =
     emit Resources_StartLoad (NewCallback CB_ResourcesDidLoad s)"

text \<open>
  The constructor and \<^verbatim>\<open>BitcodeToNative\<close>. \<open>validators\<close> is the cache-validator
  string of the \<^verbatim>\<open>PnaclOptions\<close> handed in, \<open>new_cache\<close> says whether the environment
  variable \<^verbatim>\<open>PNACL_USE_NEW_CACHE\<close> is set, \<open>otr\<close> is the plugin's answer to
  \<^verbatim>\<open>IsOffTheRecord\<close>. A fresh \<^verbatim>\<open>ErrorInfo\<close> holds \<^verbatim>\<open>ERROR_UNKNOWN\<close> and no message.
\<close>

definition PnaclCoordinator :: "string \<Rightarrow> string \<Rightarrow> bool \<Rightarrow> coordinator" where
  "PnaclCoordinator url validators new_cache =
     \<lparr>translate_finish_error = PP_OK,
      error_info = SetReport ERROR_UNKNOWN [],
      pexe_url = url,
      cache_validators = validators,
      use_new_cache = new_cache,
      is_cache_hit = False,
      error_already_reported = False,
      off_the_record = False,
      pexe_size = 0,
      pexe_bytes_compiled = 0,
      expected_pexe_size = - 1,
      dir_ref = False,
      streaming_downloader = False,
      translate_thread = False,
      obj_file = False,
      temp_nexe_file = None,
      cached_nexe_file = None,
      translated_fd = None,
      pending = [],
      trace = [],
      fault = None\<rparr>"

definition BitcodeToNative :: "string \<Rightarrow> string \<Rightarrow> bool \<Rightarrow> bool \<Rightarrow> coordinator" where
  "BitcodeToNative url validators new_cache otr =
     emit Resources_ReadResourceInfo
       (NewCallback CB_ResourceInfoWasRead
          ((PnaclCoordinator url validators new_cache)\<lparr>off_the_record := otr\<rparr>))"

subsection \<open>Opening the files of the translation\<close>

definition ObjectFileDidOpen :: "coordinator \<Rightarrow> int \<Rightarrow> coordinator" where
  "ObjectFileDidOpen s pp_error =
     (if pp_error \<noteq> PP_OK then
        ReportPpapiError s ERROR_PNACL_CREATE_TEMP pp_error ''Failed to open scratch object file.''
      else
        let s1 = (if \<not> use_new_cache s then s\<lparr>temp_nexe_file := Some new_TempFile\<rparr> else s)
        in (case temp_nexe_file s1 of
              None \<Rightarrow> crash NullDereference s1
            | Some f \<Rightarrow> emit (TempNexeFile_Open True) (NewCallback CB_RunTranslate s1)))"

definition RunTranslate :: "coordinator \<Rightarrow> int \<Rightarrow> coordinator" where
  "RunTranslate s pp_error =
     (if \<not> translate_thread s then crash CheckFailed s
      else emit TranslateThread_RunTranslate (NewCallback CB_TranslateFinished s))"

subsection \<open>Runs of a request\<close>

text \<open>
  The collaborators complete the calls that are pending: an event names a pending
  callback and the result it is run with. The translation thread reports progress
  through \<^verbatim>\<open>GetCompileProgressCallback\<close> and the downloader hands over data through
  \<^verbatim>\<open>GetCallback\<close>; those two make their callback when they need it.
\<close>

datatype event =
    Fire callback int
  | CompileProgress int int
  | StreamData int bool

fun dispatch :: "env \<Rightarrow> callback \<Rightarrow> int \<Rightarrow> coordinator \<Rightarrow> coordinator" where
  "dispatch e CB_ResourceInfoWasRead r s = ResourceInfoWasRead s r"
| "dispatch e CB_ResourcesDidLoad r s = ResourcesDidLoad e s r"
| "dispatch e CB_FileSystemDidOpen r s = FileSystemDidOpen s r"
| "dispatch e CB_DirectoryWasCreated r s = DirectoryWasCreated e s r"
| "dispatch e CB_ObjectFileDidOpen r s = ObjectFileDidOpen s r"
| "dispatch e CB_BitcodeStreamDidOpen r s = BitcodeStreamDidOpen e s r"
| "dispatch e CB_NexeFdDidOpen r s = NexeFdDidOpen e s r"
| "dispatch e CB_CachedFileDidOpen r s = CachedFileDidOpen s r"
| "dispatch e CB_BitcodeStreamDidFinish r s = BitcodeStreamDidFinish s r"
| "dispatch e CB_RunTranslate r s = RunTranslate s r"
| "dispatch e CB_TranslateFinished r s = TranslateFinished e s r"
| "dispatch e CB_CachedNexeOpenedForWrite r s = CachedNexeOpenedForWrite e s r"
| "dispatch e (CB_DidCopyNexeToCachePartial num_read_prev cur_offset) r s =
     DidCopyNexeToCachePartial e s r num_read_prev cur_offset"
| "dispatch e (CB_CorruptCacheFileWasDeleted orig_pp_error) r s =
     CorruptCacheFileWasDeleted s r orig_pp_error"
| "dispatch e CB_NexeFileWasRenamed r s = NexeFileWasRenamed s r"
| "dispatch e CB_NexeReadDidOpen r s = NexeReadDidOpen s r"

text \<open>
  Modelled from the spec: the file I/O of the plugin interface, \<^verbatim>\<open>LocalTempFile\<close> and the
  translation thread are not among the sources. This is what a completed call has done
  to the files by the time its callback runs. A write that completes with \<open>r > 0\<close> has
  stored the first \<open>r\<close> bytes of its buffer at its offset; a finished translation has
  left the nexe in the temporary file, with the offset at its end; a file opened for
  reading has a read wrapper at offset 0; a rename that met an existing target leaves
  that target's bytes under the cache identity.
\<close>

definition write_at :: "byte list \<Rightarrow> int \<Rightarrow> byte list \<Rightarrow> byte list" where
  "write_at old offset bs =
     (let n = nat offset; padded = old @ replicate (n - length old) 0
      in take n padded @ bs @ drop (n + length bs) padded)"

definition write_completed :: "int \<Rightarrow> LocalTempFile \<Rightarrow> LocalTempFile" where
  "write_completed r c =
     (case lt_inflight c of
        None \<Rightarrow> c
      | Some (offset, buf) \<Rightarrow>
          c\<lparr>lt_data := (if r > 0 then write_at (lt_data c) offset (take (nat r) buf)
                         else lt_data c),
            lt_inflight := None\<rparr>)"

definition opened_for_read :: "LocalTempFile \<Rightarrow> LocalTempFile" where
  "opened_for_read c =
     c\<lparr>lt_read := Some \<lparr>d_data = lt_data c, d_pos = 0, d_fail = False\<rparr>\<rparr>"

fun world :: "env \<Rightarrow> callback \<Rightarrow> int \<Rightarrow> coordinator \<Rightarrow> coordinator" where
  "world e CB_TranslateFinished r s =
     (if r = PP_OK
      then s\<lparr>temp_nexe_file :=
               map_option (\<lambda>f. f\<lparr>d_data := nexe_output e, d_pos := int (length (nexe_output e))\<rparr>)
                 (temp_nexe_file s)\<rparr>
      else s)"
| "world e (CB_DidCopyNexeToCachePartial num_read_prev cur_offset) r s =
     s\<lparr>cached_nexe_file := map_option (write_completed r) (cached_nexe_file s)\<rparr>"
| "world e CB_NexeFileWasRenamed r s =
     (if r = PP_OK then
        s\<lparr>cached_nexe_file :=
            map_option (\<lambda>c. c\<lparr>lt_name := CacheIdentity (get_cache_key e (cache_validators s))\<rparr>)
              (cached_nexe_file s)\<rparr>
      else if r = PP_ERROR_FILEEXISTS then
        s\<lparr>cached_nexe_file :=
            map_option (\<lambda>c. c\<lparr>lt_name := CacheIdentity (get_cache_key e (cache_validators s)),
                              lt_data := cached_artifact e\<rparr>)
              (cached_nexe_file s)\<rparr>
      else s)"
| "world e CB_CachedFileDidOpen r s =
     (if r = PP_OK
      then s\<lparr>cached_nexe_file :=
               map_option (\<lambda>c. opened_for_read (c\<lparr>lt_data := cached_artifact e\<rparr>))
                 (cached_nexe_file s)\<rparr>
      else s)"
| "world e CB_NexeReadDidOpen r s =
     (if r = PP_OK
      then s\<lparr>cached_nexe_file := map_option opened_for_read (cached_nexe_file s)\<rparr>
      else s)"
| "world e cb r s = s"

definition step :: "env \<Rightarrow> coordinator \<Rightarrow> event \<Rightarrow> coordinator" where
  "step e s ev =
     (if fault s \<noteq> None then s
      else
        (case ev of
           Fire cb r \<Rightarrow>
             if cb \<in> set (pending s)
             then dispatch e cb r (world e cb r (s\<lparr>pending := remove1 cb (pending s)\<rparr>))
             else s
         | CompileProgress bytes_compiled total_size \<Rightarrow>
             if translate_thread s then BitcodeGotCompiled e s PP_OK bytes_compiled total_size
             else s
         | StreamData r has_data \<Rightarrow>
             if streaming_downloader s then BitcodeStreamGotData s r has_data else s))"

fun run :: "env \<Rightarrow> coordinator \<Rightarrow> event list \<Rightarrow> coordinator" where
  "run e s [] = s"
| "run e s (ev # evs) = run e (step e s ev) evs"

text \<open>The calls of the trace that tell the caller of a failure.\<close>

fun is_failure_run :: "op \<Rightarrow> bool" where
  "is_failure_run (TranslateNotifyCallback_Run r) = (r \<noteq> PP_OK)"
| "is_failure_run x = False"

definition failure_runs :: "coordinator \<Rightarrow> nat" where
  "failure_runs s = length (filter is_failure_run (trace s))"

text \<open>
  The latch invariant: the caller has been told of a failure at most once, and only
  after \<^verbatim>\<open>error_already_reported_\<close> was set.
\<close>

definition latch_inv :: "coordinator \<Rightarrow> bool" where
  "latch_inv s = (failure_runs s \<le> 1 \<and> (\<not> error_already_reported s \<longrightarrow> failure_runs s = 0))"

text \<open>An example request: a cacheable response for the URL \<open>U\<close> with validators \<open>abc123\<close>.\<close>

definition example_env :: env where
  "example_env =
     \<lparr>has_cache_key = (\<lambda>v. v \<noteq> []),
      get_cache_key = (\<lambda>v. v),
      file_system_open_result = PP_OK_COMPLETIONPENDING,
      translate_thread_allocated = True,
      open_stream_ok = True,
      response_no_store = False,
      response_validators = ''abc123'',
      downloader_url = ''U'',
      get_nexe_fd_result = PP_OK_COMPLETIONPENDING,
      get_nexe_fd_is_hit = False,
      set_existing_fd_ok = True,
      nexe_output = [1, 2, 3],
      cached_artifact = [1, 2, 3],
      near_end_of_stream = (\<lambda>c t. False)\<rparr>"

text \<open>Example states: a scratch cache file whose rename is pending, and one with the first
  write of a three-byte nexe in flight.\<close>

definition renaming_example :: coordinator where
  "renaming_example =
     (PnaclCoordinator ''U'' ''abc123U'' False)
       \<lparr>cached_nexe_file := Some ((new_LocalTempFile ScratchName)\<lparr>lt_data := [1, 2, 3]\<rparr>),
        pending := [CB_NexeFileWasRenamed]\<rparr>"

definition copying_example :: coordinator where
  "copying_example =
     (PnaclCoordinator ''U'' ''abc123U'' False)
       \<lparr>temp_nexe_file := Some \<lparr>d_data = [1, 2, 3], d_pos = 3, d_fail = False\<rparr>,
        cached_nexe_file := Some ((new_LocalTempFile ScratchName)\<lparr>lt_inflight := Some (0, [1, 2, 3])\<rparr>),
        trace := [CachedNexeFile_Write 0 [1, 2, 3]]\<rparr>"

subsection \<open>The copy loop, driven by write completions\<close>

text \<open>
  \<open>complete_writes\<close> lets the file I/O complete the writes of the copy loop one after
  the other. A write of \<open>n\<close> bytes completes with \<open>min cap n\<close>, where \<open>cap\<close> is the
  next element of the list: a positive \<open>cap\<close> is the number of bytes the file takes at
  that moment, zero is a completion with no byte written, a negative \<open>cap\<close> is an error
  code.
\<close>

fun is_copy_callback :: "callback \<Rightarrow> bool" where
  "is_copy_callback (CB_DidCopyNexeToCachePartial n offset) = True"
| "is_copy_callback cb = False"

fun complete_writes :: "env \<Rightarrow> coordinator \<Rightarrow> int list \<Rightarrow> coordinator" where
  "complete_writes e s [] = s"
| "complete_writes e s (cap # caps) =
     (case filter is_copy_callback (pending s) of
        CB_DidCopyNexeToCachePartial n offset # cbs \<Rightarrow>
          complete_writes e (step e s (Fire (CB_DidCopyNexeToCachePartial n offset) (min cap n))) caps
      | _ \<Rightarrow> s)"

text \<open>
  The two states of the loop. \<open>copying D cv s off m\<close>: the first \<open>off\<close> bytes of the
  nexe \<open>D\<close> are in the cache file, the write of the next \<open>m\<close> bytes is in flight, and
  the temporary file is positioned after them. \<open>copied D key s\<close>: the cache file holds
  \<open>D\<close> and its rename to \<open>key\<close> has been asked for.
\<close>

definition copying :: "byte list \<Rightarrow> string \<Rightarrow> coordinator \<Rightarrow> nat \<Rightarrow> nat \<Rightarrow> bool" where
  "copying D cv s off m =
     (fault s = None \<and> cache_validators s = cv \<and> 0 < m \<and> off + m \<le> length D \<and>
      filter is_copy_callback (pending s) = [CB_DidCopyNexeToCachePartial (int m) (int off)] \<and>
      (case temp_nexe_file s of
         None \<Rightarrow> False
       | Some f \<Rightarrow> d_data f = D \<and> \<not> d_fail f \<and> d_pos f = int (off + m)) \<and>
      (case cached_nexe_file s of
         None \<Rightarrow> False
       | Some c \<Rightarrow> lt_data c = take off D \<and>
                  lt_inflight c = Some (int off, take m (drop off D))))"

definition copied :: "byte list \<Rightarrow> string \<Rightarrow> coordinator \<Rightarrow> bool" where
  "copied D key s =
     (fault s = None \<and> filter is_copy_callback (pending s) = [] \<and>
      CB_NexeFileWasRenamed \<in> set (pending s) \<and>
      trace s \<noteq> [] \<and> last (trace s) = CachedNexeFile_Rename key \<and>
      map_option lt_data (cached_nexe_file s) = Some D)"

text \<open>An example state: a three-byte nexe has been translated and the scratch cache file is
  open for writing.\<close>

definition copy_ready_example :: coordinator where
  "copy_ready_example =
     (PnaclCoordinator ''U'' ''abc123U'' False)
       \<lparr>translate_thread := True,
        temp_nexe_file := Some \<lparr>d_data = [1, 2, 3], d_pos = 0, d_fail = False\<rparr>,
        cached_nexe_file := Some (new_LocalTempFile ScratchName),
        trace := [TempNexeFile_Reset, CachedNexeFile_OpenWrite]\<rparr>"

subsection \<open>Progress events of a run\<close>

text \<open>
  The progress events of a trace, as pairs of the bytes compiled and the expected total
  that the event carries (-1 while the total is unknown); the events that one step adds;
  and a run of compile-progress callbacks, each with the bytes it adds and the total
  the downloader answers.
\<close>

fun progress_events :: "op list \<Rightarrow> (int \<times> int) list" where
  "progress_events [] = []"
| "progress_events (Plugin_EnqueueProgressEvent url lc bytes_so_far bytes_total # xs) =
     (bytes_so_far, bytes_total) # progress_events xs"
| "progress_events (x # xs) = progress_events xs"

definition progress_log :: "coordinator \<Rightarrow> (int \<times> int) list" where
  "progress_log s = progress_events (trace s)"

definition new_progress :: "env \<Rightarrow> coordinator \<Rightarrow> event \<Rightarrow> (int \<times> int) list" where
  "new_progress e s ev = drop (length (progress_log s)) (progress_log (step e s ev))"

fun compile_progress :: "env \<Rightarrow> coordinator \<Rightarrow> (int \<times> int) list \<Rightarrow> coordinator" where
  "compile_progress e s [] = s"
| "compile_progress e s ((bytes_compiled, total_size) # xs) =
     compile_progress e (step e s (CompileProgress bytes_compiled total_size)) xs"

text \<open>An example state: the translation is running and no byte has been compiled.\<close>

definition translating_example :: coordinator where
  "translating_example =
     (PnaclCoordinator ''U'' ''abc123U'' False)
       \<lparr>streaming_downloader := True,
        translate_thread := True,
        temp_nexe_file := Some new_TempFile,
        pending := [CB_TranslateFinished]\<rparr>"

subsection \<open>Requests with caching disabled\<close>

text \<open>
  The calls that touch the cache store (the cache file of the file-system cache, or the
  browser's lookup \<^verbatim>\<open>GetNexeFd\<close> of the new cache), and the callbacks that belong to
  them. Opening the temporary file system and creating the \<^verbatim>\<open>/.pnacl\<close> directory
  happen before the response headers are known and are not counted.
\<close>

fun is_cache_store_op :: "op \<Rightarrow> bool" where
  "is_cache_store_op (Plugin_GetNexeFd key) = True"
| "is_cache_store_op CachedNexeFile_OpenRead = True"
| "is_cache_store_op CachedNexeFile_OpenWrite = True"
| "is_cache_store_op (CachedNexeFile_Write offset buf) = True"
| "is_cache_store_op CachedNexeFile_Delete = True"
| "is_cache_store_op (CachedNexeFile_Rename key) = True"
| "is_cache_store_op CachedNexeFile_FinishRename = True"
| "is_cache_store_op x = False"

fun is_cache_callback :: "callback \<Rightarrow> bool" where
  "is_cache_callback CB_NexeFdDidOpen = True"
| "is_cache_callback CB_CachedFileDidOpen = True"
| "is_cache_callback CB_CachedNexeOpenedForWrite = True"
| "is_cache_callback (CB_DidCopyNexeToCachePartial n offset) = True"
| "is_cache_callback (CB_CorruptCacheFileWasDeleted orig_pp_error) = True"
| "is_cache_callback CB_NexeFileWasRenamed = True"
| "is_cache_callback cb = False"

text \<open>
  A request has caching disabled when the context is off the record, or the response
  carries \<^verbatim>\<open>Cache-Control: no-store\<close>, or it has no cache validators.
\<close>

definition caching_disabled :: "env \<Rightarrow> bool \<Rightarrow> bool" where
  "caching_disabled e otr = (otr \<or> response_no_store e \<or> response_validators e = [])"

text \<open>
  Two invariants of a run. \<open>no_cache_inv\<close>: there is no cache file object, no call on
  the cache store has been made and none of its callbacks is pending.
  \<open>translation_inv\<close>: while \<^verbatim>\<open>RunTranslate\<close> or \<^verbatim>\<open>TranslateFinished\<close> is pending the
  temporary nexe file exists, and while \<^verbatim>\<open>TranslateFinished\<close> is pending the translation
  thread exists.
\<close>

definition no_cache_inv :: "bool \<Rightarrow> coordinator \<Rightarrow> bool" where
  "no_cache_inv otr s =
     (off_the_record s = otr \<and> cached_nexe_file s = None \<and>
      (\<forall>x \<in> set (trace s). \<not> is_cache_store_op x) \<and>
      (\<forall>cb \<in> set (pending s). \<not> is_cache_callback cb))"

definition translation_inv :: "coordinator \<Rightarrow> bool" where
  "translation_inv s =
     ((CB_RunTranslate \<in> set (pending s) \<or> CB_TranslateFinished \<in> set (pending s)
         \<longrightarrow> temp_nexe_file s \<noteq> None) \<and>
      (CB_TranslateFinished \<in> set (pending s) \<longrightarrow> translate_thread s))"

text \<open>
  Example runs: an off-the-record request up to the end of streaming, and a request
  with validators up to the probe of the cache.
\<close>

definition off_the_record_events :: "event list" where
  "off_the_record_events =
     [Fire CB_ResourceInfoWasRead PP_OK, Fire CB_ResourcesDidLoad PP_OK,
      Fire CB_ObjectFileDidOpen PP_OK, Fire CB_BitcodeStreamDidOpen PP_OK,
      Fire CB_RunTranslate PP_OK, StreamData 3 True, Fire CB_BitcodeStreamDidFinish PP_OK]"




section \<open>Properties of the coordinator\<close>

lemmas pp_defs =
  PP_OK_def PP_OK_COMPLETIONPENDING_def PP_ERROR_FAILED_def PP_ERROR_ABORTED_def
  PP_ERROR_NOACCESS_def PP_ERROR_NOSPACE_def PP_ERROR_NOQUOTA_def PP_ERROR_INPROGRESS_def
  PP_ERROR_FILENOTFOUND_def PP_ERROR_FILEEXISTS_def PP_ERROR_NOTAFILE_def

subsection \<open>The failure latch\<close>

lemma latch_inv_emit: "\<not> is_failure_run x \<Longrightarrow> latch_inv (emit x s) = latch_inv s"
  by (simp add: latch_inv_def failure_runs_def emit_def)

lemma latch_inv_NewCallback: "latch_inv (NewCallback cb s) = latch_inv s"
  by (simp add: latch_inv_def failure_runs_def NewCallback_def)

lemma latch_inv_crash: "latch_inv (crash f s) = latch_inv s"
  by (simp add: latch_inv_def failure_runs_def crash_def)

lemma latch_inv_update:
  "latch_inv (s\<lparr>translate_finish_error := a1\<rparr>) = latch_inv s"
  "latch_inv (s\<lparr>error_info := a2\<rparr>) = latch_inv s"
  "latch_inv (s\<lparr>cache_validators := a3\<rparr>) = latch_inv s"
  "latch_inv (s\<lparr>is_cache_hit := a4\<rparr>) = latch_inv s"
  "latch_inv (s\<lparr>pexe_size := a5\<rparr>) = latch_inv s"
  "latch_inv (s\<lparr>pexe_bytes_compiled := a6\<rparr>) = latch_inv s"
  "latch_inv (s\<lparr>expected_pexe_size := a7\<rparr>) = latch_inv s"
  "latch_inv (s\<lparr>dir_ref := a8\<rparr>) = latch_inv s"
  "latch_inv (s\<lparr>streaming_downloader := a9\<rparr>) = latch_inv s"
  "latch_inv (s\<lparr>translate_thread := a10\<rparr>) = latch_inv s"
  "latch_inv (s\<lparr>obj_file := a11\<rparr>) = latch_inv s"
  "latch_inv (s\<lparr>temp_nexe_file := a12\<rparr>) = latch_inv s"
  "latch_inv (s\<lparr>cached_nexe_file := a13\<rparr>) = latch_inv s"
  "latch_inv (s\<lparr>translated_fd := a14\<rparr>) = latch_inv s"
  "latch_inv (s\<lparr>pending := a15\<rparr>) = latch_inv s"
  by (simp_all add: latch_inv_def failure_runs_def)

lemma latch_inv_ExitWithError: "latch_inv s \<Longrightarrow> latch_inv (ExitWithError s)"
  by (auto simp: latch_inv_def failure_runs_def ExitWithError_def emit_def Let_def pp_defs)

lemma latch_inv_ReportPpapiError: "latch_inv s \<Longrightarrow> latch_inv (ReportPpapiError s c p m)"
  by (simp add: ReportPpapiError_def latch_inv_ExitWithError latch_inv_update)

lemma latch_inv_ReportNonPpapiError: "latch_inv s \<Longrightarrow> latch_inv (ReportNonPpapiError s c m)"
  by (simp add: ReportNonPpapiError_def latch_inv_ExitWithError latch_inv_update)

lemmas latch_inv_basic = latch_inv_emit latch_inv_NewCallback latch_inv_crash latch_inv_update latch_inv_ExitWithError
  latch_inv_ReportPpapiError latch_inv_ReportNonPpapiError

lemma latch_inv_NexeReadDidOpen: "latch_inv s \<Longrightarrow> latch_inv (NexeReadDidOpen s r)"
  by (auto simp: NexeReadDidOpen_def latch_inv_basic split: option.splits)

lemma latch_inv_NexeFileWasRenamed: "latch_inv s \<Longrightarrow> latch_inv (NexeFileWasRenamed s r)"
  by (auto simp: NexeFileWasRenamed_def latch_inv_basic split: option.splits)

lemma latch_inv_CorruptCacheFileWasDeleted: "latch_inv s \<Longrightarrow> latch_inv (CorruptCacheFileWasDeleted s d r)"
  by (auto simp: CorruptCacheFileWasDeleted_def latch_inv_basic)

lemma latch_inv_NexeWasCopiedToCache: "latch_inv s \<Longrightarrow> latch_inv (NexeWasCopiedToCache e s r)"
  by (auto simp: NexeWasCopiedToCache_def latch_inv_basic split: option.splits)

lemma latch_inv_CopyNextChunk: "latch_inv s \<Longrightarrow> latch_inv (CopyNextChunk e s off)"
  by (auto simp: CopyNextChunk_def Let_def latch_inv_basic latch_inv_NexeWasCopiedToCache
      split: option.splits prod.splits)

lemma latch_inv_DidCopyNexeToCachePartial: "latch_inv s \<Longrightarrow> latch_inv (DidCopyNexeToCachePartial e s r n off)"
  by (auto simp: DidCopyNexeToCachePartial_def Let_def latch_inv_basic latch_inv_NexeWasCopiedToCache
      latch_inv_CopyNextChunk split: option.splits prod.splits)

lemma latch_inv_CachedNexeOpenedForWrite: "latch_inv s \<Longrightarrow> latch_inv (CachedNexeOpenedForWrite e s r)"
  by (auto simp: CachedNexeOpenedForWrite_def latch_inv_basic latch_inv_CopyNextChunk)

lemma latch_inv_TranslateFinished: "latch_inv s \<Longrightarrow> latch_inv (TranslateFinished e s r)"
  by (auto simp: TranslateFinished_def Let_def latch_inv_basic latch_inv_NexeReadDidOpen
      split: option.splits)

lemma latch_inv_BitcodeGotCompiled: "latch_inv s \<Longrightarrow> latch_inv (BitcodeGotCompiled e s r b t)"
  by (auto simp: BitcodeGotCompiled_def Let_def latch_inv_basic)

lemma latch_inv_BitcodeStreamDidFinish: "latch_inv s \<Longrightarrow> latch_inv (BitcodeStreamDidFinish s r)"
  by (auto simp: BitcodeStreamDidFinish_def Let_def latch_inv_basic)

lemma latch_inv_BitcodeStreamGotData: "latch_inv s \<Longrightarrow> latch_inv (BitcodeStreamGotData s r d)"
  by (auto simp: BitcodeStreamGotData_def Let_def latch_inv_basic)

lemma latch_inv_CachedFileDidOpen: "latch_inv s \<Longrightarrow> latch_inv (CachedFileDidOpen s r)"
  by (auto simp: CachedFileDidOpen_def latch_inv_basic latch_inv_NexeReadDidOpen)

lemma latch_inv_NexeFdDidOpen: "latch_inv s \<Longrightarrow> latch_inv (NexeFdDidOpen e s r)"
  by (auto simp: NexeFdDidOpen_def Let_def latch_inv_basic)

lemma latch_inv_BitcodeStreamDidOpen: "latch_inv s \<Longrightarrow> latch_inv (BitcodeStreamDidOpen e s r)"
  by (auto simp: BitcodeStreamDidOpen_def Let_def latch_inv_basic latch_inv_BitcodeStreamDidFinish
      latch_inv_TranslateFinished latch_inv_CachedFileDidOpen)

lemma latch_inv_OpenBitcodeStream: "latch_inv s \<Longrightarrow> latch_inv (OpenBitcodeStream e s)"
  by (auto simp: OpenBitcodeStream_def Let_def latch_inv_basic)

lemma latch_inv_DirectoryWasCreated: "latch_inv s \<Longrightarrow> latch_inv (DirectoryWasCreated e s r)"
  by (auto simp: DirectoryWasCreated_def latch_inv_basic latch_inv_OpenBitcodeStream)

lemma latch_inv_FileSystemDidOpen: "latch_inv s \<Longrightarrow> latch_inv (FileSystemDidOpen s r)"
  by (auto simp: FileSystemDidOpen_def Let_def latch_inv_basic)

lemma latch_inv_ResourcesDidLoad: "latch_inv s \<Longrightarrow> latch_inv (ResourcesDidLoad e s r)"
  by (auto simp: ResourcesDidLoad_def Let_def latch_inv_basic latch_inv_OpenBitcodeStream)

lemma latch_inv_ResourceInfoWasRead: "latch_inv s \<Longrightarrow> latch_inv (ResourceInfoWasRead s r)"
  by (auto simp: ResourceInfoWasRead_def latch_inv_basic)

lemma latch_inv_ObjectFileDidOpen: "latch_inv s \<Longrightarrow> latch_inv (ObjectFileDidOpen s r)"
  by (auto simp: ObjectFileDidOpen_def Let_def latch_inv_basic split: option.splits)

lemma latch_inv_RunTranslate: "latch_inv s \<Longrightarrow> latch_inv (RunTranslate s r)"
  by (auto simp: RunTranslate_def latch_inv_basic)

lemma latch_inv_world: "latch_inv (world e cb r s) = latch_inv s"
  by (cases cb) (simp_all add: latch_inv_update)

lemma latch_inv_dispatch: "latch_inv s \<Longrightarrow> latch_inv (dispatch e cb r s)"
  by (cases cb)
     (simp_all add: latch_inv_NexeReadDidOpen latch_inv_NexeFileWasRenamed latch_inv_CorruptCacheFileWasDeleted
        latch_inv_DidCopyNexeToCachePartial latch_inv_CachedNexeOpenedForWrite latch_inv_TranslateFinished
        latch_inv_BitcodeStreamDidFinish latch_inv_CachedFileDidOpen latch_inv_NexeFdDidOpen
        latch_inv_BitcodeStreamDidOpen latch_inv_DirectoryWasCreated latch_inv_FileSystemDidOpen
        latch_inv_ResourcesDidLoad latch_inv_ResourceInfoWasRead latch_inv_ObjectFileDidOpen latch_inv_RunTranslate)

lemma latch_inv_step: "latch_inv s \<Longrightarrow> latch_inv (step e s ev)"
  by (auto simp: step_def latch_inv_dispatch latch_inv_world latch_inv_update latch_inv_BitcodeGotCompiled
      latch_inv_BitcodeStreamGotData split: event.splits)

lemma latch_inv_run: "latch_inv s \<Longrightarrow> latch_inv (run e s evs)"
  by (induction evs arbitrary: s) (simp_all add: latch_inv_step)

lemma latch_inv_BitcodeToNative: "latch_inv (BitcodeToNative url v nc otr)"
  by (simp add: BitcodeToNative_def latch_inv_basic)
     (simp add: latch_inv_def failure_runs_def PnaclCoordinator_def)

lemma ExitWithError_reported: "error_already_reported (ExitWithError s)"
  by (simp add: ExitWithError_def emit_def Let_def)

lemma ExitWithError_pending: "pending (ExitWithError s) = []"
  by (simp add: ExitWithError_def emit_def Let_def)

lemma ExitWithError_trace:
  "trace (ExitWithError s) =
     trace s @ [Plugin_ReportLoadError (error_info s), CallbackFactory_CancelAll]
       @ (if error_already_reported s then [] else [TranslateNotifyCallback_Run PP_ERROR_FAILED])"
  by (simp add: ExitWithError_def emit_def Let_def)

lemma ExitWithError_again:
  "error_already_reported s \<Longrightarrow>
   ExitWithError s =
     s\<lparr>trace := trace s @ [Plugin_ReportLoadError (error_info s), CallbackFactory_CancelAll],
       pending := []\<rparr>"
  by (simp add: ExitWithError_def emit_def Let_def)

text \<open>
  Claim C1. The caller's completion callback is run with a failure at most once in a
  request: in every run of the coordinator the trace holds at most one failing run of
  \<^verbatim>\<open>translate_notify_callback_\<close>; \<^verbatim>\<open>ExitWithError\<close> sets the latch, and a call of it
  with the latch set reports the error to the plugin and cancels the callbacks but does
  not run the completion callback.
\<close>

theorem failure_reported_at_most_once:
  "failure_runs (run e (BitcodeToNative url validators new_cache otr) evs) \<le> 1
   \<and> error_already_reported (ExitWithError s)
   \<and> (error_already_reported s \<longrightarrow>
        ExitWithError s =
          s\<lparr>trace := trace s @ [Plugin_ReportLoadError (error_info s), CallbackFactory_CancelAll],
            pending := []\<rparr>)"
proof -
  have "latch_inv (run e (BitcodeToNative url validators new_cache otr) evs)"
    by (rule latch_inv_run) (rule latch_inv_BitcodeToNative)
  then show ?thesis
    by (simp add: latch_inv_def ExitWithError_reported ExitWithError_again)
qed

theorem failure_reported_at_most_once_witness:
  "error_already_reported (ExitWithError (BitcodeToNative ''U'' [] False False))
   \<and> ExitWithError (ExitWithError (BitcodeToNative ''U'' [] False False)) =
       (ExitWithError (BitcodeToNative ''U'' [] False False))
         \<lparr>trace := trace (ExitWithError (BitcodeToNative ''U'' [] False False))
             @ [Plugin_ReportLoadError (error_info (ExitWithError (BitcodeToNative ''U'' [] False False))),
                CallbackFactory_CancelAll],
          pending := []\<rparr>
   \<and> failure_runs (run example_env (BitcodeToNative ''U'' [] False False)
        [Fire CB_ResourceInfoWasRead PP_OK, Fire CB_ResourcesDidLoad PP_OK,
         Fire CB_FileSystemDidOpen PP_ERROR_NOACCESS]) \<le> 1"
  using failure_reported_at_most_once
    [of example_env "''U''" "[]" False False
        "[Fire CB_ResourceInfoWasRead PP_OK, Fire CB_ResourcesDidLoad PP_OK,
          Fire CB_FileSystemDidOpen PP_ERROR_NOACCESS]"
        "ExitWithError (BitcodeToNative ''U'' [] False False)"]
  by (simp add: ExitWithError_reported)

subsection \<open>Error reports\<close>

lemma ReportPpapiError_trace:
  "trace (ReportPpapiError s c r m) =
     trace s @ [Plugin_ReportLoadError (SetReport c (ppapi_message m r)), CallbackFactory_CancelAll]
       @ (if error_already_reported s then [] else [TranslateNotifyCallback_Run PP_ERROR_FAILED])"
  by (simp add: ReportPpapiError_def ExitWithError_trace)

lemma ReportPpapiError_pending: "pending (ReportPpapiError s c r m) = []"
  by (simp add: ReportPpapiError_def ExitWithError_pending)

lemma ReportPpapiError_reported: "error_already_reported (ReportPpapiError s c r m)"
  by (simp add: ReportPpapiError_def ExitWithError_reported)

subsection \<open>Renaming the scratch file\<close>

text \<open>
  Claim C3. When the rename of the scratch cache file completes with
  \<^verbatim>\<open>PP_ERROR_FILEEXISTS\<close>, \<^verbatim>\<open>NexeFileWasRenamed\<close> does what it does on \<^verbatim>\<open>PP_OK\<close>: it
  finishes the rename and opens the cache file for reading, with \<^verbatim>\<open>NexeReadDidOpen\<close>
  pending, and reports no error. Every other failure of the rename is fatal: the error
  is reported (no-access, or other), all callbacks are cancelled, the completion
  callback is run with a failure unless one was delivered before, and neither
  \<^verbatim>\<open>FinishRename\<close> nor \<^verbatim>\<open>OpenRead\<close> is called.
\<close>

theorem rename_collision_is_benign:
  assumes "cached_nexe_file s \<noteq> None"
  shows "NexeFileWasRenamed s PP_ERROR_FILEEXISTS = NexeFileWasRenamed s PP_OK
    \<and> NexeFileWasRenamed s PP_ERROR_FILEEXISTS =
        NewCallback CB_NexeReadDidOpen
          (emit CachedNexeFile_OpenRead (emit CachedNexeFile_FinishRename s))
    \<and> (r \<noteq> PP_OK \<and> r \<noteq> PP_ERROR_FILEEXISTS \<longrightarrow>
         pending (NexeFileWasRenamed s r) = []
         \<and> error_already_reported (NexeFileWasRenamed s r)
         \<and> trace (NexeFileWasRenamed s r) =
             trace s
             @ [Plugin_ReportLoadError
                  (if r = PP_ERROR_NOACCESS
                   then SetReport ERROR_PNACL_CACHE_FINALIZE_RENAME_NOACCESS
                          (ppapi_message ''Failed to finalize cached translation (no access).'' r)
                   else SetReport ERROR_PNACL_CACHE_FINALIZE_RENAME_OTHER
                          (ppapi_message ''Failed to finalize cached translation.'' r)),
                CallbackFactory_CancelAll]
             @ (if error_already_reported s then []
                else [TranslateNotifyCallback_Run PP_ERROR_FAILED]))"
proof -
  from assms obtain c where c: "cached_nexe_file s = Some c" by auto
  have ok: "NexeFileWasRenamed s PP_OK =
      NewCallback CB_NexeReadDidOpen
        (emit CachedNexeFile_OpenRead (emit CachedNexeFile_FinishRename s))"
    by (simp add: NexeFileWasRenamed_def c)
  have ex: "NexeFileWasRenamed s PP_ERROR_FILEEXISTS = NexeFileWasRenamed s PP_OK"
    by (simp add: NexeFileWasRenamed_def pp_defs)
  have fatal: "r \<noteq> PP_OK \<Longrightarrow> r \<noteq> PP_ERROR_FILEEXISTS \<Longrightarrow>
      NexeFileWasRenamed s r =
        (if r = PP_ERROR_NOACCESS
         then ReportPpapiError s ERROR_PNACL_CACHE_FINALIZE_RENAME_NOACCESS r
                ''Failed to finalize cached translation (no access).''
         else ReportPpapiError s ERROR_PNACL_CACHE_FINALIZE_RENAME_OTHER r
                ''Failed to finalize cached translation.'')"
    by (simp add: NexeFileWasRenamed_def)
  show ?thesis
    using ok ex fatal
    by (simp add: ReportPpapiError_trace ReportPpapiError_pending ReportPpapiError_reported)
qed

theorem rename_collision_is_benign_witness:
  "cached_nexe_file renaming_example \<noteq> None
   \<and> trace (NexeFileWasRenamed renaming_example PP_ERROR_FILEEXISTS) =
       [CachedNexeFile_FinishRename, CachedNexeFile_OpenRead]
   \<and> pending (NexeFileWasRenamed renaming_example PP_ERROR_NOACCESS) = []"
  using rename_collision_is_benign [of renaming_example PP_ERROR_NOACCESS]
  by (simp add: renaming_example_def PnaclCoordinator_def emit_def NewCallback_def pp_defs
      NexeFileWasRenamed_def ReportPpapiError_def ExitWithError_def Let_def)

subsection \<open>Failure of the copy into the cache\<close>

text \<open>
  Claim C5. When a write of the cache copy completes with an error \<open>r < 0\<close>,
  \<^verbatim>\<open>DidCopyNexeToCachePartial\<close> only asks for the scratch file to be deleted, binding
  \<open>r\<close> to the callback of the deletion, and reports nothing yet. When the deletion
  completes, \<^verbatim>\<open>CorruptCacheFileWasDeleted\<close> reports \<open>r\<close>, as no-quota, no-space or
  other, whatever the result of the deletion was.
\<close>

theorem copy_failure_deletes_then_reports_original:
  assumes "cached_nexe_file s \<noteq> None" and "r < PP_OK"
  shows "DidCopyNexeToCachePartial e s r num_read_prev cur_offset =
           NewCallback (CB_CorruptCacheFileWasDeleted r) (emit CachedNexeFile_Delete s)
    \<and> CorruptCacheFileWasDeleted s' delete_pp_error r = CorruptCacheFileWasDeleted s' PP_OK r
    \<and> pending (CorruptCacheFileWasDeleted s' delete_pp_error r) = []
    \<and> trace (CorruptCacheFileWasDeleted s' delete_pp_error r) =
        trace s'
        @ [Plugin_ReportLoadError
             (if r = PP_ERROR_NOQUOTA
              then SetReport ERROR_PNACL_CACHE_FINALIZE_COPY_NOQUOTA
                     (ppapi_message ''Failed to copy translated nexe to cache (no quota).'' r)
              else if r = PP_ERROR_NOSPACE
              then SetReport ERROR_PNACL_CACHE_FINALIZE_COPY_NOSPACE
                     (ppapi_message ''Failed to copy translated nexe to cache (no space).'' r)
              else SetReport ERROR_PNACL_CACHE_FINALIZE_COPY_OTHER
                     (ppapi_message ''Failed to copy translated nexe to cache.'' r)),
           CallbackFactory_CancelAll]
        @ (if error_already_reported s' then []
           else [TranslateNotifyCallback_Run PP_ERROR_FAILED])"
proof -
  from assms(1) obtain c where c: "cached_nexe_file s = Some c" by auto
  from assms(2) have ne: "r \<noteq> PP_OK" by simp
  have a: "DidCopyNexeToCachePartial e s r num_read_prev cur_offset =
           NewCallback (CB_CorruptCacheFileWasDeleted r) (emit CachedNexeFile_Delete s)"
    using assms(2) ne by (simp add: DidCopyNexeToCachePartial_def NexeWasCopiedToCache_def c)
  have b: "CorruptCacheFileWasDeleted s' delete_pp_error r = CorruptCacheFileWasDeleted s' PP_OK r"
    by (simp add: CorruptCacheFileWasDeleted_def)
  show ?thesis
    using a b
    by (simp add: CorruptCacheFileWasDeleted_def ReportPpapiError_trace ReportPpapiError_pending)
qed

theorem copy_failure_deletes_then_reports_original_witness:
  "cached_nexe_file copying_example \<noteq> None \<and> PP_ERROR_NOQUOTA < PP_OK
   \<and> trace (DidCopyNexeToCachePartial example_env copying_example PP_ERROR_NOQUOTA 3 0) =
       [CachedNexeFile_Write 0 [1, 2, 3], CachedNexeFile_Delete]
   \<and> pending (DidCopyNexeToCachePartial example_env copying_example PP_ERROR_NOQUOTA 3 0) =
       [CB_CorruptCacheFileWasDeleted PP_ERROR_NOQUOTA]
   \<and> trace (CorruptCacheFileWasDeleted
        (DidCopyNexeToCachePartial example_env copying_example PP_ERROR_NOQUOTA 3 0)
        PP_ERROR_FAILED PP_ERROR_NOQUOTA) =
       [CachedNexeFile_Write 0 [1, 2, 3], CachedNexeFile_Delete,
        Plugin_ReportLoadError
          (SetReport ERROR_PNACL_CACHE_FINALIZE_COPY_NOQUOTA
             (ppapi_message ''Failed to copy translated nexe to cache (no quota).'' PP_ERROR_NOQUOTA)),
        CallbackFactory_CancelAll, TranslateNotifyCallback_Run PP_ERROR_FAILED]"
  using copy_failure_deletes_then_reports_original
    [of copying_example PP_ERROR_NOQUOTA example_env 3 0
        "DidCopyNexeToCachePartial example_env copying_example PP_ERROR_NOQUOTA 3 0" PP_ERROR_FAILED]
  by (simp add: copying_example_def PnaclCoordinator_def emit_def NewCallback_def pp_defs
      DidCopyNexeToCachePartial_def NexeWasCopiedToCache_def CorruptCacheFileWasDeleted_def
      ReportPpapiError_def ExitWithError_def Let_def)

subsection \<open>A write that completes with zero bytes\<close>

text \<open>
  Claim C10. A write completion that reports zero bytes written (\<^verbatim>\<open>PP_OK\<close>) ends the
  copy: \<^verbatim>\<open>DidCopyNexeToCachePartial\<close> asks for the rename to the cache identity at once;
  it neither seeks nor reads the temporary nexe file and issues no further write,
  whatever number of bytes the completed write had been asked to store.
\<close>

theorem zero_bytes_written_ends_copy:
  assumes "cached_nexe_file s \<noteq> None"
  shows "DidCopyNexeToCachePartial e s 0 num_read_prev cur_offset =
           NewCallback CB_NexeFileWasRenamed
             (emit (CachedNexeFile_Rename (get_cache_key e (cache_validators s))) s)
    \<and> temp_nexe_file (DidCopyNexeToCachePartial e s 0 num_read_prev cur_offset) = temp_nexe_file s
    \<and> cached_nexe_file (DidCopyNexeToCachePartial e s 0 num_read_prev cur_offset) = cached_nexe_file s
    \<and> trace (DidCopyNexeToCachePartial e s 0 num_read_prev cur_offset) =
        trace s @ [CachedNexeFile_Rename (get_cache_key e (cache_validators s))]"
proof -
  from assms obtain c where c: "cached_nexe_file s = Some c" by auto
  show ?thesis
    by (simp add: DidCopyNexeToCachePartial_def NexeWasCopiedToCache_def c PP_OK_def
        NewCallback_def emit_def)
qed

theorem zero_bytes_written_ends_copy_witness:
  "cached_nexe_file copying_example \<noteq> None
   \<and> trace (DidCopyNexeToCachePartial example_env copying_example 0 3 0) =
       [CachedNexeFile_Write 0 [1, 2, 3], CachedNexeFile_Rename ''abc123U'']
   \<and> temp_nexe_file (DidCopyNexeToCachePartial example_env copying_example 0 3 0) =
       Some \<lparr>d_data = [1, 2, 3], d_pos = 3, d_fail = False\<rparr>"
  using zero_bytes_written_ends_copy [of copying_example example_env 3 0]
  by (simp add: copying_example_def PnaclCoordinator_def example_env_def emit_def NewCallback_def)

subsection \<open>Failure to open the cache file system\<close>

text \<open>
  Claim C4. The claim says that nothing more is done for a request once an
  unrecoverable error has been reported, in particular after the cache file system
  failed to open with a code other than no-access, no-quota or no-space. In
  \<^verbatim>\<open>FileSystemDidOpen\<close> that last report is not followed by a \<^verbatim>\<open>return\<close>, as the three
  reports before it are: for the result \<^verbatim>\<open>PP_ERROR_FAILED\<close> the coordinator reports the
  error and runs the completion callback with a failure, and then still creates the
  cache directory; when that completes it opens the object file and the bitcode stream.
\<close>

theorem file_system_open_failure_continues:
  "trace (run example_env (BitcodeToNative ''U'' [] False False)
        [Fire CB_ResourceInfoWasRead PP_OK, Fire CB_ResourcesDidLoad PP_OK,
         Fire CB_FileSystemDidOpen PP_ERROR_FAILED, Fire CB_DirectoryWasCreated PP_OK]) =
     [Resources_ReadResourceInfo, Resources_StartLoad, FileSystem_Open,
      Plugin_ReportLoadError
        (SetReport ERROR_PNACL_CACHE_OPEN_OTHER
           (ppapi_message ''File system for PNaCl translation cache failed to open.'' PP_ERROR_FAILED)),
      CallbackFactory_CancelAll, TranslateNotifyCallback_Run PP_ERROR_FAILED,
      DirRef_MakeDirectory, ObjFile_Open, Downloader_OpenStream ''U'']"
  by (simp add: BitcodeToNative_def PnaclCoordinator_def step_def emit_def NewCallback_def
      ResourceInfoWasRead_def ResourcesDidLoad_def FileSystemDidOpen_def DirectoryWasCreated_def
      OpenBitcodeStream_def ReportPpapiError_def ExitWithError_def Let_def example_env_def pp_defs)

subsection \<open>The copy loop\<close>

lemma kCopyBufSize_pos: "0 < nat kCopyBufSize"
  by (simp add: kCopyBufSize_def)

lemma CopyNextChunk_cases:
  assumes "fault s = None" and "filter is_copy_callback (pending s) = []"
    and "temp_nexe_file s = Some f" and "d_data f = D" and "\<not> d_fail f" and "d_pos f = int off"
    and "cached_nexe_file s = Some c" and "lt_data c = take off D" and "off \<le> length D"
  shows "copied D (get_cache_key e (cache_validators s)) (CopyNextChunk e s (int off)) \<or>
         (\<exists>m. copying D (cache_validators s) (CopyNextChunk e s (int off)) off m)"
proof (cases "off = length D")
  case True
  then have "desc_Read f kCopyBufSize = (0, [], f)"
    using assms by (simp add: desc_Read_def)
  then have "copied D (get_cache_key e (cache_validators s)) (CopyNextChunk e s (int off))"
    using assms True
    by (simp add: CopyNextChunk_def NexeWasCopiedToCache_def copied_def NewCallback_def emit_def
        PP_OK_def)
  then show ?thesis ..
next
  case False
  define m where "m = min (nat kCopyBufSize) (length D - off)"
  have m: "0 < m" "off + m \<le> length D"
    using False assms(9) kCopyBufSize_pos by (auto simp: m_def)
  have len: "length (take (nat kCopyBufSize) (drop off D)) = m"
    by (simp add: m_def)
  have tk: "take (nat kCopyBufSize) (drop off D) = take m (drop off D)"
    by (simp add: m_def min_def)
  have rd: "desc_Read f kCopyBufSize =
      (int m, take m (drop off D), f\<lparr>d_pos := int off + int m\<rparr>)"
    using assms len tk by (simp add: desc_Read_def Let_def)
  have "copying D (cache_validators s) (CopyNextChunk e s (int off)) off m"
    using assms m rd
    by (simp add: CopyNextChunk_def copying_def NewCallback_def emit_def)
  then show ?thesis by blast
qed

lemma write_at_end:
  "off \<le> length D \<Longrightarrow> r \<le> m \<Longrightarrow> off + m \<le> length D \<Longrightarrow>
   write_at (take off D) (int off) (take r (take m (drop off D))) = take (off + r) D"
  by (simp add: write_at_def Let_def min_def take_add)

lemma copying_step:
  assumes c: "copying D cv s off m" and cap: "0 < cap"
  shows "copied D (get_cache_key e cv)
           (step e s (Fire (CB_DidCopyNexeToCachePartial (int m) (int off)) (min cap (int m)))) \<or>
         (\<exists>m'. copying D cv
           (step e s (Fire (CB_DidCopyNexeToCachePartial (int m) (int off)) (min cap (int m))))
           (off + nat (min cap (int m))) m')"
proof -
  define r where "r = nat (min cap (int m))"
  from c obtain f c0 where st:
    "fault s = None" "cache_validators s = cv" "0 < m" "off + m \<le> length D"
    "filter is_copy_callback (pending s) = [CB_DidCopyNexeToCachePartial (int m) (int off)]"
    "temp_nexe_file s = Some f" "d_data f = D" "\<not> d_fail f" "d_pos f = int (off + m)"
    "cached_nexe_file s = Some c0" "lt_data c0 = take off D"
    "lt_inflight c0 = Some (int off, take m (drop off D))"
    by (auto simp: copying_def split: option.splits)
  have r: "0 < r" "r \<le> m" "min cap (int m) = int r"
    using cap st(3) by (auto simp: r_def)
  have mem: "CB_DidCopyNexeToCachePartial (int m) (int off) \<in> set (pending s)"
  proof -
    have "CB_DidCopyNexeToCachePartial (int m) (int off) \<in> set (filter is_copy_callback (pending s))"
      by (simp add: st(5))
    then show ?thesis by simp
  qed
  define c1 where "c1 = c0\<lparr>lt_data := take (off + r) D, lt_inflight := None\<rparr>"
  define s0 where "s0 = s\<lparr>pending := remove1 (CB_DidCopyNexeToCachePartial (int m) (int off)) (pending s),
                           cached_nexe_file := Some c1\<rparr>"
  have wc: "write_completed (int r) c0 = c1"
    using st r write_at_end [of off D r m]
    by (simp add: write_completed_def c1_def)
  have step_eq: "step e s (Fire (CB_DidCopyNexeToCachePartial (int m) (int off)) (int r)) =
      DidCopyNexeToCachePartial e s0 (int r) (int m) (int off)"
    using st(1) mem by (simp add: step_def st(10) wc s0_def)
  have s0_copy: "filter is_copy_callback (pending s0) = []"
    by (simp add: s0_def filter_remove1 st(5))
  define f1 where "f1 = f\<lparr>d_pos := int (off + r)\<rparr>"
  have handler: "DidCopyNexeToCachePartial e s0 (int r) (int m) (int off) =
      CopyNextChunk e (s0\<lparr>temp_nexe_file := Some f1\<rparr>) (int (off + r))"
  proof (cases "r = m")
    case True
    have same: "s0\<lparr>temp_nexe_file := Some f1\<rparr> = s0"
      using st(6,9) True by (simp add: s0_def f1_def)
    have tf: "temp_nexe_file s0 = Some f"
      by (simp add: s0_def st(6))
    have "DidCopyNexeToCachePartial e s0 (int m) (int m) (int off) =
        CopyNextChunk e s0 (int off + int m)"
      using st(3) tf by (simp add: DidCopyNexeToCachePartial_def PP_OK_def)
    then show ?thesis
      by (simp add: same True)
  next
    case False
    then have lt: "r < m" using r(2) by simp
    have sk: "desc_Seek_cur f (int r - int m) = (int (off + r), f1)"
      using st(8,9) lt by (simp add: desc_Seek_cur_def f1_def)
    have tf: "temp_nexe_file s0 = Some f"
      by (simp add: s0_def st(6))
    show ?thesis
      using r(1) lt tf sk by (simp add: DidCopyNexeToCachePartial_def PP_OK_def Let_def)
  qed
  have le: "off + r \<le> length D" using r st(4) by simp
  have "copied D (get_cache_key e (cache_validators (s0\<lparr>temp_nexe_file := Some f1\<rparr>)))
          (CopyNextChunk e (s0\<lparr>temp_nexe_file := Some f1\<rparr>) (int (off + r))) \<or>
        (\<exists>m'. copying D (cache_validators (s0\<lparr>temp_nexe_file := Some f1\<rparr>))
          (CopyNextChunk e (s0\<lparr>temp_nexe_file := Some f1\<rparr>) (int (off + r))) (off + r) m')"
    by (rule CopyNextChunk_cases [where f = f1 and c = c1])
       (use st s0_copy le in \<open>simp_all add: s0_def f1_def c1_def\<close>)
  moreover have "cache_validators (s0\<lparr>temp_nexe_file := Some f1\<rparr>) = cv"
    by (simp add: s0_def st(2))
  ultimately show ?thesis
    unfolding r(3) using step_eq handler by simp
qed

lemma complete_writes_copied:
  "copied D key s \<Longrightarrow> complete_writes e s caps = s"
  by (cases caps) (simp_all add: copied_def)

lemma complete_writes_copying:
  "copying D cv s off m \<Longrightarrow> \<forall>cap \<in> set caps. 0 < cap \<Longrightarrow> length D - off \<le> length caps \<Longrightarrow>
   copied D (get_cache_key e cv) (complete_writes e s caps)"
proof (induction caps arbitrary: s off m)
  case Nil
  then show ?case by (simp add: copying_def)
next
  case (Cons cap caps)
  let ?s' = "step e s (Fire (CB_DidCopyNexeToCachePartial (int m) (int off)) (min cap (int m)))"
  have unfold: "complete_writes e s (cap # caps) = complete_writes e ?s' caps"
    using Cons.prems(1) by (simp add: copying_def)
  have cap: "0 < cap" using Cons.prems(2) by simp
  have m: "0 < m" using Cons.prems(1) by (simp add: copying_def)
  from copying_step [OF Cons.prems(1) cap, of e]
  show ?case
  proof
    assume fin: "copied D (get_cache_key e cv) ?s'"
    then have "complete_writes e ?s' caps = ?s'" by (rule complete_writes_copied)
    with fin show ?thesis unfolding unfold by simp
  next
    assume "\<exists>m'. copying D cv ?s' (off + nat (min cap (int m))) m'"
    then obtain m' where c': "copying D cv ?s' (off + nat (min cap (int m))) m'" ..
    have "length D - (off + nat (min cap (int m))) \<le> length caps"
      using Cons.prems(3) cap m by (auto simp: min_def)
    with Cons.IH [OF c'] Cons.prems(2) show ?thesis unfolding unfold by simp
  qed
qed

lemma reseek_after_short_write:
  assumes "0 < r" and "r < n" and "temp_nexe_file s = Some f" and "\<not> d_fail f"
    and "n - r \<le> d_pos f"
  shows "DidCopyNexeToCachePartial e s r n offset =
           CopyNextChunk e (s\<lparr>temp_nexe_file := Some (f\<lparr>d_pos := d_pos f - (n - r)\<rparr>)\<rparr>)
             (offset + r)"
proof -
  have "desc_Seek_cur f (r - n) = (d_pos f - (n - r), f\<lparr>d_pos := d_pos f - (n - r)\<rparr>)"
    using assms(4,5) by (simp add: desc_Seek_cur_def)
  then show ?thesis
    using assms(1,2,3,5) by (simp add: DidCopyNexeToCachePartial_def PP_OK_def Let_def)
qed

lemma write_after_reseek:
  assumes "0 < r" and "r < n" and "temp_nexe_file s = Some f" and "\<not> d_fail f"
    and "n - r \<le> d_pos f" and "d_pos f - (n - r) < int (length (d_data f))"
    and "cached_nexe_file s = Some c"
  shows "trace (DidCopyNexeToCachePartial e s r n offset) =
           trace s @ [CachedNexeFile_Write (offset + r)
                        (take (nat kCopyBufSize) (drop (nat (d_pos f - (n - r))) (d_data f)))]"
    and "pending (DidCopyNexeToCachePartial e s r n offset) =
           pending s @ [CB_DidCopyNexeToCachePartial
                          (int (length (take (nat kCopyBufSize)
                             (drop (nat (d_pos f - (n - r))) (d_data f)))))
                          (offset + r)]"
    and "map_option d_pos (temp_nexe_file (DidCopyNexeToCachePartial e s r n offset)) =
           Some (d_pos f - (n - r)
                 + int (length (take (nat kCopyBufSize)
                          (drop (nat (d_pos f - (n - r))) (d_data f)))))"
proof -
  define p where "p = d_pos f - (n - r)"
  define bs where "bs = take (nat kCopyBufSize) (drop (nat p) (d_data f))"
  define fb where "fb = f\<lparr>d_pos := p\<rparr>"
  define sb where "sb = s\<lparr>temp_nexe_file := Some fb\<rparr>"
  have eq: "DidCopyNexeToCachePartial e s r n offset = CopyNextChunk e sb (offset + r)"
    unfolding sb_def fb_def p_def using assms(1-5) by (rule reseek_after_short_write)
  have "nat p < length (d_data f)"
    using assms(5,6) by (simp add: p_def)
  then have pos: "0 < length bs"
    using kCopyBufSize_pos by (simp add: bs_def)
  have rd: "desc_Read fb kCopyBufSize = (int (length bs), bs, fb\<lparr>d_pos := p + int (length bs)\<rparr>)"
    using assms(4) by (simp add: desc_Read_def Let_def bs_def fb_def)
  have sbf: "temp_nexe_file sb = Some fb" "cached_nexe_file sb = Some c"
    "trace sb = trace s" "pending sb = pending s"
    by (simp_all add: sb_def assms(7))
  have chunk: "CopyNextChunk e sb (offset + r) =
      emit (CachedNexeFile_Write (offset + r) bs)
        (NewCallback (CB_DidCopyNexeToCachePartial (int (length bs)) (offset + r))
           (sb\<lparr>temp_nexe_file := Some (fb\<lparr>d_pos := p + int (length bs)\<rparr>),
                cached_nexe_file := Some (c\<lparr>lt_inflight := Some (offset + r, bs)\<rparr>)\<rparr>))"
    using pos by (simp add: CopyNextChunk_def sbf(1,2) rd Let_def)
  show "trace (DidCopyNexeToCachePartial e s r n offset) =
           trace s @ [CachedNexeFile_Write (offset + r)
                        (take (nat kCopyBufSize) (drop (nat (d_pos f - (n - r))) (d_data f)))]"
    unfolding eq chunk by (simp add: emit_def NewCallback_def sbf(3) bs_def p_def)
  show "pending (DidCopyNexeToCachePartial e s r n offset) =
           pending s @ [CB_DidCopyNexeToCachePartial
                          (int (length (take (nat kCopyBufSize)
                             (drop (nat (d_pos f - (n - r))) (d_data f)))))
                          (offset + r)]"
    unfolding eq chunk by (simp add: emit_def NewCallback_def sbf(4) bs_def p_def)
  show "map_option d_pos (temp_nexe_file (DidCopyNexeToCachePartial e s r n offset)) =
           Some (d_pos f - (n - r)
                 + int (length (take (nat kCopyBufSize)
                          (drop (nat (d_pos f - (n - r))) (d_data f)))))"
    unfolding eq chunk by (simp add: emit_def NewCallback_def bs_def p_def)
qed

text \<open>
  Claim C2, as amended. When a write completion reports a positive number of bytes \<open>r\<close>
  that is less than the number \<open>n\<close> requested, \<^verbatim>\<open>DidCopyNexeToCachePartial\<close> seeks the
  temporary nexe file back by \<open>n - r\<close> and then reads and writes the next chunk at
  offset \<open>cur_offset + r\<close>: the bytes of the next write are those of the temporary file
  from the position it was moved back to. If every write completes with a positive
  number of bytes (and the temporary file can be read), then once enough writes have
  completed the cache file holds exactly the bytes of the translated nexe and its rename
  to the cache identity has been asked for.
\<close>

theorem short_writes_are_recopied:
  assumes "fault s = None" and "filter is_copy_callback (pending s) = []"
    and "temp_nexe_file s = Some f" and "d_pos f = 0" and "\<not> d_fail f"
    and "cached_nexe_file s = Some c" and "lt_data c = []"
    and "\<forall>cap \<in> set caps. 0 < cap" and "length (d_data f) \<le> length caps"
  shows "(0 < r \<and> r < n \<and> temp_nexe_file sw = Some fw \<and> \<not> d_fail fw \<and> n - r \<le> d_pos fw \<longrightarrow>
           DidCopyNexeToCachePartial e sw r n offset =
             CopyNextChunk e (sw\<lparr>temp_nexe_file := Some (fw\<lparr>d_pos := d_pos fw - (n - r)\<rparr>)\<rparr>)
               (offset + r))
       \<and> (0 < r \<and> r < n \<and> temp_nexe_file sw = Some fw \<and> \<not> d_fail fw \<and> n - r \<le> d_pos fw
            \<and> d_pos fw - (n - r) < int (length (d_data fw)) \<and> cached_nexe_file sw = Some cw \<longrightarrow>
           trace (DidCopyNexeToCachePartial e sw r n offset) =
             trace sw @ [CachedNexeFile_Write (offset + r)
                           (take (nat kCopyBufSize)
                              (drop (nat (d_pos fw - (n - r))) (d_data fw)))]
           \<and> pending (DidCopyNexeToCachePartial e sw r n offset) =
               pending sw @ [CB_DidCopyNexeToCachePartial
                               (int (length (take (nat kCopyBufSize)
                                  (drop (nat (d_pos fw - (n - r))) (d_data fw)))))
                               (offset + r)]
           \<and> map_option d_pos (temp_nexe_file (DidCopyNexeToCachePartial e sw r n offset)) =
               Some (d_pos fw - (n - r)
                     + int (length (take (nat kCopyBufSize)
                              (drop (nat (d_pos fw - (n - r))) (d_data fw))))))
       \<and> map_option lt_data
           (cached_nexe_file (complete_writes e (CachedNexeOpenedForWrite e s PP_OK) caps)) =
           Some (d_data f)
       \<and> last (trace (complete_writes e (CachedNexeOpenedForWrite e s PP_OK) caps)) =
           CachedNexeFile_Rename (get_cache_key e (cache_validators s))
       \<and> CB_NexeFileWasRenamed \<in>
           set (pending (complete_writes e (CachedNexeOpenedForWrite e s PP_OK) caps))
       \<and> fault (complete_writes e (CachedNexeOpenedForWrite e s PP_OK) caps) = None"
proof -
  let ?s0 = "CachedNexeOpenedForWrite e s PP_OK"
  let ?key = "get_cache_key e (cache_validators s)"
  have start: "?s0 = CopyNextChunk e s (int 0)"
    by (simp add: CachedNexeOpenedForWrite_def)
  have "copied (d_data f) ?key (CopyNextChunk e s (int 0)) \<or>
        (\<exists>m. copying (d_data f) (cache_validators s) (CopyNextChunk e s (int 0)) 0 m)"
    by (rule CopyNextChunk_cases [where f = f and c = c]) (use assms in simp_all)
  then have fin: "copied (d_data f) ?key (complete_writes e ?s0 caps)"
  proof
    assume a: "copied (d_data f) ?key (CopyNextChunk e s (int 0))"
    then have "complete_writes e (CopyNextChunk e s (int 0)) caps = CopyNextChunk e s (int 0)"
      by (rule complete_writes_copied)
    with a show ?thesis by (simp add: start)
  next
    assume "\<exists>m. copying (d_data f) (cache_validators s) (CopyNextChunk e s (int 0)) 0 m"
    then obtain m where "copying (d_data f) (cache_validators s) (CopyNextChunk e s (int 0)) 0 m" ..
    from complete_writes_copying [OF this assms(8)] assms(9)
    show ?thesis by (simp add: start)
  qed
  have seek: "0 < r \<and> r < n \<and> temp_nexe_file sw = Some fw \<and> \<not> d_fail fw \<and> n - r \<le> d_pos fw \<longrightarrow>
           DidCopyNexeToCachePartial e sw r n offset =
             CopyNextChunk e (sw\<lparr>temp_nexe_file := Some (fw\<lparr>d_pos := d_pos fw - (n - r)\<rparr>)\<rparr>)
               (offset + r)"
    using reseek_after_short_write [of r n sw fw e offset] by blast
  have rewrite: "0 < r \<and> r < n \<and> temp_nexe_file sw = Some fw \<and> \<not> d_fail fw \<and> n - r \<le> d_pos fw
            \<and> d_pos fw - (n - r) < int (length (d_data fw)) \<and> cached_nexe_file sw = Some cw \<longrightarrow>
           trace (DidCopyNexeToCachePartial e sw r n offset) =
             trace sw @ [CachedNexeFile_Write (offset + r)
                           (take (nat kCopyBufSize)
                              (drop (nat (d_pos fw - (n - r))) (d_data fw)))]
           \<and> pending (DidCopyNexeToCachePartial e sw r n offset) =
               pending sw @ [CB_DidCopyNexeToCachePartial
                               (int (length (take (nat kCopyBufSize)
                                  (drop (nat (d_pos fw - (n - r))) (d_data fw)))))
                               (offset + r)]
           \<and> map_option d_pos (temp_nexe_file (DidCopyNexeToCachePartial e sw r n offset)) =
               Some (d_pos fw - (n - r)
                     + int (length (take (nat kCopyBufSize)
                              (drop (nat (d_pos fw - (n - r))) (d_data fw)))))"
    using write_after_reseek [of r n sw fw cw e offset] by blast
  from fin have fin': "map_option lt_data (cached_nexe_file (complete_writes e ?s0 caps)) =
           Some (d_data f)
       \<and> last (trace (complete_writes e ?s0 caps)) = CachedNexeFile_Rename ?key
       \<and> CB_NexeFileWasRenamed \<in> set (pending (complete_writes e ?s0 caps))
       \<and> fault (complete_writes e ?s0 caps) = None"
    by (simp add: copied_def)
  from seek rewrite fin' show ?thesis by blast
qed

theorem short_writes_are_recopied_witness:
  "fault copy_ready_example = None
   \<and> filter is_copy_callback (pending copy_ready_example) = []
   \<and> temp_nexe_file copy_ready_example = Some \<lparr>d_data = [1, 2, 3], d_pos = 0, d_fail = False\<rparr>
   \<and> cached_nexe_file copy_ready_example = Some (new_LocalTempFile ScratchName)
   \<and> lt_data (new_LocalTempFile ScratchName) = []
   \<and> (0 :: int) < 2 \<and> (0 :: int) < 1
   \<and> map_option lt_data
        (cached_nexe_file
           (complete_writes example_env
              (CachedNexeOpenedForWrite example_env copy_ready_example PP_OK) [2, 1, 1])) =
        Some [1, 2, 3]
   \<and> (2 :: int) < 3
   \<and> temp_nexe_file copying_example = Some \<lparr>d_data = [1, 2, 3], d_pos = 3, d_fail = False\<rparr>
   \<and> cached_nexe_file copying_example =
       Some ((new_LocalTempFile ScratchName)\<lparr>lt_inflight := Some (0, [1, 2, 3])\<rparr>)
   \<and> trace (DidCopyNexeToCachePartial example_env copying_example 2 3 0) =
       [CachedNexeFile_Write 0 [1, 2, 3], CachedNexeFile_Write 2 [3]]
   \<and> pending (DidCopyNexeToCachePartial example_env copying_example 2 3 0) =
       [CB_DidCopyNexeToCachePartial 1 2]
   \<and> map_option d_pos (temp_nexe_file (DidCopyNexeToCachePartial example_env copying_example 2 3 0)) =
       Some 3"
  using short_writes_are_recopied
    [where s = copy_ready_example and f = "\<lparr>d_data = [1, 2, 3], d_pos = 0, d_fail = False\<rparr>"
       and c = "new_LocalTempFile ScratchName" and caps = "[2, 1, 1]" and e = example_env
       and r = 2 and n = 3 and offset = 0 and sw = copying_example
       and fw = "\<lparr>d_data = [1, 2, 3], d_pos = 3, d_fail = False\<rparr>"
       and cw = "(new_LocalTempFile ScratchName)\<lparr>lt_inflight := Some (0, [1, 2, 3])\<rparr>"]
  by (simp add: copy_ready_example_def copying_example_def PnaclCoordinator_def
      new_LocalTempFile_def CachedNexeOpenedForWrite_def CopyNextChunk_def
      DidCopyNexeToCachePartial_def NexeWasCopiedToCache_def desc_Read_def desc_Seek_cur_def
      kCopyBufSize_def step_def write_completed_def write_at_def NewCallback_def emit_def
      example_env_def Let_def pp_defs)

text \<open>
  The claim as it was stated, for every completion that reports fewer bytes than
  requested, fails for a completion that reports zero bytes. The first write of the
  three-byte nexe stores two bytes and the last byte is written again; that second
  write reports zero bytes of the one requested: the temporary file is not moved back
  (it stays at offset 3), no further write is issued, and the cache file that is renamed
  holds two of the three bytes.
\<close>

theorem zero_byte_short_write_counterexample:
  "map_option lt_data
     (cached_nexe_file
        (complete_writes example_env
           (CachedNexeOpenedForWrite example_env copy_ready_example PP_OK) [2, 0])) \<noteq>
   map_option d_data
     (temp_nexe_file
        (complete_writes example_env
           (CachedNexeOpenedForWrite example_env copy_ready_example PP_OK) [2, 0]))
   \<and> map_option lt_data
     (cached_nexe_file
        (complete_writes example_env
           (CachedNexeOpenedForWrite example_env copy_ready_example PP_OK) [2, 0])) = Some [1, 2]
   \<and> map_option d_data
       (temp_nexe_file
          (complete_writes example_env
             (CachedNexeOpenedForWrite example_env copy_ready_example PP_OK) [2, 0])) = Some [1, 2, 3]
   \<and> map_option d_pos
       (temp_nexe_file
          (complete_writes example_env
             (CachedNexeOpenedForWrite example_env copy_ready_example PP_OK) [2, 0])) = Some 3
   \<and> trace (complete_writes example_env
        (CachedNexeOpenedForWrite example_env copy_ready_example PP_OK) [2, 0]) =
       [TempNexeFile_Reset, CachedNexeFile_OpenWrite, CachedNexeFile_Write 0 [1, 2, 3],
        CachedNexeFile_Write 2 [3], CachedNexeFile_Rename ''abc123U'']"
  by (simp add: copy_ready_example_def PnaclCoordinator_def new_LocalTempFile_def
      CachedNexeOpenedForWrite_def CopyNextChunk_def DidCopyNexeToCachePartial_def
      NexeWasCopiedToCache_def desc_Read_def desc_Seek_cur_def kCopyBufSize_def step_def
      write_completed_def write_at_def NewCallback_def emit_def example_env_def Let_def pp_defs)

subsection \<open>Progress events\<close>

lemma progress_events_append: "progress_events (xs @ ys) = progress_events xs @ progress_events ys"
  by (induction xs rule: progress_events.induct) simp_all

lemma progress_log_emit: "progress_log (emit x s) = progress_log s @ progress_events [x]"
  by (simp add: progress_log_def emit_def progress_events_append)

lemma progress_log_NewCallback: "progress_log (NewCallback cb s) = progress_log s"
  by (simp add: progress_log_def NewCallback_def)

lemma progress_log_crash: "progress_log (crash f s) = progress_log s"
  by (simp add: progress_log_def crash_def)

lemma progress_log_update:
  "progress_log (s\<lparr>translate_finish_error := a1\<rparr>) = progress_log s"
  "progress_log (s\<lparr>error_info := a2\<rparr>) = progress_log s"
  "progress_log (s\<lparr>cache_validators := a3\<rparr>) = progress_log s"
  "progress_log (s\<lparr>is_cache_hit := a4\<rparr>) = progress_log s"
  "progress_log (s\<lparr>pexe_size := a5\<rparr>) = progress_log s"
  "progress_log (s\<lparr>pexe_bytes_compiled := a6\<rparr>) = progress_log s"
  "progress_log (s\<lparr>expected_pexe_size := a7\<rparr>) = progress_log s"
  "progress_log (s\<lparr>dir_ref := a8\<rparr>) = progress_log s"
  "progress_log (s\<lparr>streaming_downloader := a9\<rparr>) = progress_log s"
  "progress_log (s\<lparr>translate_thread := a10\<rparr>) = progress_log s"
  "progress_log (s\<lparr>obj_file := a11\<rparr>) = progress_log s"
  "progress_log (s\<lparr>temp_nexe_file := a12\<rparr>) = progress_log s"
  "progress_log (s\<lparr>cached_nexe_file := a13\<rparr>) = progress_log s"
  "progress_log (s\<lparr>translated_fd := a14\<rparr>) = progress_log s"
  "progress_log (s\<lparr>pending := a15\<rparr>) = progress_log s"
  "progress_log (s\<lparr>error_already_reported := a16\<rparr>) = progress_log s"
  by (simp_all add: progress_log_def)

lemma progress_log_ExitWithError: "progress_log (ExitWithError s) = progress_log s"
  by (simp add: progress_log_def ExitWithError_trace progress_events_append)

lemma progress_log_ReportPpapiError: "progress_log (ReportPpapiError s c p m) = progress_log s"
  by (simp add: ReportPpapiError_def progress_log_ExitWithError progress_log_update)

lemma progress_log_ReportNonPpapiError: "progress_log (ReportNonPpapiError s c m) = progress_log s"
  by (simp add: ReportNonPpapiError_def progress_log_ExitWithError progress_log_update)

lemmas progress_log_basic = progress_log_emit progress_log_NewCallback progress_log_crash
  progress_log_update progress_log_ExitWithError progress_log_ReportPpapiError
  progress_log_ReportNonPpapiError

lemma progress_log_NexeReadDidOpen: "progress_log (NexeReadDidOpen s r) = progress_log s"
  by (auto simp: NexeReadDidOpen_def Let_def progress_log_basic  split: option.splits)

lemma progress_log_NexeFileWasRenamed: "progress_log (NexeFileWasRenamed s r) = progress_log s"
  by (auto simp: NexeFileWasRenamed_def Let_def progress_log_basic  split: option.splits)

lemma progress_log_CorruptCacheFileWasDeleted: "progress_log (CorruptCacheFileWasDeleted s d r) = progress_log s"
  by (auto simp: CorruptCacheFileWasDeleted_def Let_def progress_log_basic )

lemma progress_log_NexeWasCopiedToCache: "progress_log (NexeWasCopiedToCache e s r) = progress_log s"
  by (auto simp: NexeWasCopiedToCache_def Let_def progress_log_basic  split: option.splits)

lemma progress_log_CopyNextChunk: "progress_log (CopyNextChunk e s off) = progress_log s"
  by (auto simp: CopyNextChunk_def Let_def progress_log_basic progress_log_NexeWasCopiedToCache split: option.splits prod.splits)

lemma progress_log_DidCopyNexeToCachePartial: "progress_log (DidCopyNexeToCachePartial e s r n off) = progress_log s"
  by (auto simp: DidCopyNexeToCachePartial_def Let_def progress_log_basic progress_log_NexeWasCopiedToCache progress_log_CopyNextChunk split: option.splits prod.splits)

lemma progress_log_CachedNexeOpenedForWrite: "progress_log (CachedNexeOpenedForWrite e s r) = progress_log s"
  by (auto simp: CachedNexeOpenedForWrite_def Let_def progress_log_basic progress_log_CopyNextChunk)

lemma progress_log_BitcodeStreamDidFinish: "progress_log (BitcodeStreamDidFinish s r) = progress_log s"
  by (auto simp: BitcodeStreamDidFinish_def Let_def progress_log_basic )

lemma progress_log_BitcodeStreamGotData: "progress_log (BitcodeStreamGotData s r d) = progress_log s"
  by (auto simp: BitcodeStreamGotData_def Let_def progress_log_basic )

lemma progress_log_CachedFileDidOpen: "progress_log (CachedFileDidOpen s r) = progress_log s"
  by (auto simp: CachedFileDidOpen_def Let_def progress_log_basic progress_log_NexeReadDidOpen)

lemma progress_log_NexeFdDidOpen: "progress_log (NexeFdDidOpen e s r) = progress_log s"
  by (auto simp: NexeFdDidOpen_def Let_def progress_log_basic )

lemma progress_log_OpenBitcodeStream: "progress_log (OpenBitcodeStream e s) = progress_log s"
  by (auto simp: OpenBitcodeStream_def Let_def progress_log_basic )

lemma progress_log_DirectoryWasCreated: "progress_log (DirectoryWasCreated e s r) = progress_log s"
  by (auto simp: DirectoryWasCreated_def Let_def progress_log_basic progress_log_OpenBitcodeStream)

lemma progress_log_FileSystemDidOpen: "progress_log (FileSystemDidOpen s r) = progress_log s"
  by (auto simp: FileSystemDidOpen_def Let_def progress_log_basic )

lemma progress_log_ResourcesDidLoad: "progress_log (ResourcesDidLoad e s r) = progress_log s"
  by (auto simp: ResourcesDidLoad_def Let_def progress_log_basic progress_log_OpenBitcodeStream)

lemma progress_log_ResourceInfoWasRead: "progress_log (ResourceInfoWasRead s r) = progress_log s"
  by (auto simp: ResourceInfoWasRead_def Let_def progress_log_basic )

lemma progress_log_ObjectFileDidOpen: "progress_log (ObjectFileDidOpen s r) = progress_log s"
  by (auto simp: ObjectFileDidOpen_def Let_def progress_log_basic  split: option.splits)

lemma progress_log_RunTranslate: "progress_log (RunTranslate s r) = progress_log s"
  by (auto simp: RunTranslate_def Let_def progress_log_basic )

lemma progress_log_TranslateFinished:
  "progress_log (TranslateFinished e s r) =
     progress_log s @
       (if translate_finish_error s = PP_OK \<and> r = PP_OK \<and> ExpectedProgressKnown s
        then [(expected_pexe_size s, expected_pexe_size s)] else [])"
  by (auto simp: TranslateFinished_def Let_def progress_log_basic progress_log_NexeReadDidOpen
      split: option.splits)

lemma progress_log_BitcodeStreamDidOpen:
  "progress_log (BitcodeStreamDidOpen e s r) = progress_log s"
proof (cases "r = PP_OK")
  case True
  then show ?thesis
    by (auto simp: BitcodeStreamDidOpen_def Let_def progress_log_basic progress_log_CachedFileDidOpen)
next
  case False
  then show ?thesis
    by (simp add: BitcodeStreamDidOpen_def Let_def progress_log_TranslateFinished
        progress_log_BitcodeStreamDidFinish)
qed

lemma pexe_bytes_compiled_BitcodeGotCompiled:
  "pexe_bytes_compiled (BitcodeGotCompiled e s r b t) = int64_wrap (pexe_bytes_compiled s + b)"
  by (auto simp: BitcodeGotCompiled_def Let_def emit_def crash_def)

lemma progress_log_BitcodeGotCompiled:
  "progress_log (BitcodeGotCompiled e s r b t) = progress_log s \<or>
   (\<exists>t'. progress_log (BitcodeGotCompiled e s r b t) =
          progress_log s @ [(pexe_bytes_compiled (BitcodeGotCompiled e s r b t), t')]
        \<and> (t' \<noteq> - 1 \<longrightarrow>
             pexe_bytes_compiled (BitcodeGotCompiled e s r b t) < t' \<and>
             \<not> near_end_of_stream e (pexe_bytes_compiled (BitcodeGotCompiled e s r b t)) t'))"
  unfolding pexe_bytes_compiled_BitcodeGotCompiled
  by (auto simp: BitcodeGotCompiled_def Let_def progress_log_basic ExpectedProgressKnown_def
      ShouldDelayProgressEvent_def)

lemma int64_wrap_in_range: "- (2 ^ 63) \<le> x \<Longrightarrow> x < 2 ^ 63 \<Longrightarrow> int64_wrap x = x"
  by (simp add: int64_wrap_def)

lemma progress_log_world: "progress_log (world e cb r s) = progress_log s"
  by (cases cb) (simp_all add: progress_log_update)

lemma progress_log_dispatch:
  "cb \<noteq> CB_TranslateFinished \<Longrightarrow> progress_log (dispatch e cb r s) = progress_log s"
  by (cases cb)
     (simp_all add: progress_log_NexeReadDidOpen progress_log_NexeFileWasRenamed
        progress_log_CorruptCacheFileWasDeleted progress_log_DidCopyNexeToCachePartial
        progress_log_CachedNexeOpenedForWrite progress_log_BitcodeStreamDidFinish
        progress_log_CachedFileDidOpen progress_log_NexeFdDidOpen progress_log_BitcodeStreamDidOpen
        progress_log_DirectoryWasCreated progress_log_FileSystemDidOpen progress_log_ResourcesDidLoad
        progress_log_ResourceInfoWasRead progress_log_ObjectFileDidOpen progress_log_RunTranslate)

lemma step_CompileProgress:
  assumes "0 \<le> b" and "- (2 ^ 63) \<le> pexe_bytes_compiled s"
    and "pexe_bytes_compiled s + b < 2 ^ 63"
  shows "pexe_bytes_compiled s \<le> pexe_bytes_compiled (step e s (CompileProgress b t)) \<and>
     pexe_bytes_compiled (step e s (CompileProgress b t)) \<le> pexe_bytes_compiled s + b \<and>
     (progress_log (step e s (CompileProgress b t)) = progress_log s \<or>
      (\<exists>t'. progress_log (step e s (CompileProgress b t)) =
              progress_log s @ [(pexe_bytes_compiled (step e s (CompileProgress b t)), t')]
            \<and> (t' \<noteq> - 1 \<longrightarrow>
                 pexe_bytes_compiled (step e s (CompileProgress b t)) < t' \<and>
                 \<not> near_end_of_stream e (pexe_bytes_compiled (step e s (CompileProgress b t))) t')))"
proof (cases "fault s = None \<and> translate_thread s")
  case True
  then have eq: "step e s (CompileProgress b t) = BitcodeGotCompiled e s PP_OK b t"
    by (simp add: step_def)
  have "int64_wrap (pexe_bytes_compiled s + b) = pexe_bytes_compiled s + b"
    using assms by (intro int64_wrap_in_range) simp_all
  then have c: "pexe_bytes_compiled (BitcodeGotCompiled e s PP_OK b t) = pexe_bytes_compiled s + b"
    by (simp add: pexe_bytes_compiled_BitcodeGotCompiled)
  show ?thesis
    unfolding eq
    using assms(1) c progress_log_BitcodeGotCompiled [of e s PP_OK b t] by auto
next
  case False
  then have "step e s (CompileProgress b t) = s"
    by (auto simp: step_def)
  with assms(1) show ?thesis by simp
qed

lemma compile_progress_log:
  assumes "\<forall>bt \<in> set bts. 0 \<le> fst bt" and "- (2 ^ 63) \<le> pexe_bytes_compiled s"
    and "pexe_bytes_compiled s + sum_list (map fst bts) < 2 ^ 63"
  shows "\<exists>news. progress_log (compile_progress e s bts) = progress_log s @ news \<and>
           sorted (map fst news) \<and>
           (\<forall>(c, t) \<in> set news. pexe_bytes_compiled s \<le> c \<and>
              (t \<noteq> - 1 \<longrightarrow> c < t \<and> \<not> near_end_of_stream e c t))"
  using assms
proof (induction bts arbitrary: s)
  case Nil
  then show ?case by simp
next
  case (Cons bt bts)
  obtain b t where bt: "bt = (b, t)" by (cases bt)
  let ?s1 = "step e s (CompileProgress b t)"
  have b: "0 \<le> b" using Cons.prems(1) bt by simp
  have rest: "0 \<le> sum_list (map fst bts)"
    using Cons.prems(1) by (intro sum_list_nonneg) auto
  have fits: "pexe_bytes_compiled s + b < 2 ^ 63"
    using Cons.prems(3) rest bt by simp
  from step_CompileProgress [OF b Cons.prems(2) fits, of e t]
  have mono: "pexe_bytes_compiled s \<le> pexe_bytes_compiled ?s1"
    and upper: "pexe_bytes_compiled ?s1 \<le> pexe_bytes_compiled s + b"
    and log: "progress_log ?s1 = progress_log s \<or>
      (\<exists>t'. progress_log ?s1 = progress_log s @ [(pexe_bytes_compiled ?s1, t')]
            \<and> (t' \<noteq> - 1 \<longrightarrow> pexe_bytes_compiled ?s1 < t' \<and>
                 \<not> near_end_of_stream e (pexe_bytes_compiled ?s1) t'))"
    by auto
  have lower1: "- (2 ^ 63) \<le> pexe_bytes_compiled ?s1"
    using Cons.prems(2) mono by linarith
  have fits1: "pexe_bytes_compiled ?s1 + sum_list (map fst bts) < 2 ^ 63"
    using Cons.prems(3) upper bt by simp
  have nonneg1: "\<forall>bt \<in> set bts. 0 \<le> fst bt"
    using Cons.prems(1) by simp
  from Cons.IH [OF nonneg1 lower1 fits1]
  obtain news where news: "progress_log (compile_progress e ?s1 bts) = progress_log ?s1 @ news"
    "sorted (map fst news)"
    "\<forall>(c, t) \<in> set news. pexe_bytes_compiled ?s1 \<le> c \<and>
        (t \<noteq> - 1 \<longrightarrow> c < t \<and> \<not> near_end_of_stream e c t)"
    by auto
  from log show ?case
  proof
    assume "progress_log ?s1 = progress_log s"
    with news mono show ?thesis
      by (intro exI [of _ news]) (auto simp: bt)
  next
    assume "\<exists>t'. progress_log ?s1 = progress_log s @ [(pexe_bytes_compiled ?s1, t')]
            \<and> (t' \<noteq> - 1 \<longrightarrow> pexe_bytes_compiled ?s1 < t' \<and>
                 \<not> near_end_of_stream e (pexe_bytes_compiled ?s1) t')"
    then obtain t' where t': "progress_log ?s1 = progress_log s @ [(pexe_bytes_compiled ?s1, t')]"
      "t' \<noteq> - 1 \<longrightarrow> pexe_bytes_compiled ?s1 < t' \<and>
                 \<not> near_end_of_stream e (pexe_bytes_compiled ?s1) t'"
      by blast
    with news mono show ?thesis
      by (intro exI [of _ "(pexe_bytes_compiled ?s1, t') # news"]) (auto simp: bt)
  qed
qed

text \<open>
  Claim C8, as amended. For every sequence of compile-progress callbacks whose byte
  increments are not negative and whose running total of bytes compiled stays within
  the range of \<^verbatim>\<open>int64_t\<close>, the progress events that the sequence enqueues report a
  bytes-compiled count that never decreases from one event to the next (and is never
  below the count at the start), and no event whose expected total is known reports
  more bytes compiled than that total.
\<close>

theorem compile_progress_is_monotone:
  assumes "\<forall>bt \<in> set bts. 0 \<le> fst bt" and "- (2 ^ 63) \<le> pexe_bytes_compiled s"
    and "pexe_bytes_compiled s + sum_list (map fst bts) < 2 ^ 63"
  shows "sorted (map fst (drop (length (progress_log s)) (progress_log (compile_progress e s bts))))
    \<and> (\<forall>(c, t) \<in> set (drop (length (progress_log s)) (progress_log (compile_progress e s bts))).
          pexe_bytes_compiled s \<le> c \<and> (t \<noteq> - 1 \<longrightarrow> c \<le> t))"
proof -
  from compile_progress_log [OF assms, of e]
  obtain news where news: "progress_log (compile_progress e s bts) = progress_log s @ news"
    "sorted (map fst news)"
    "\<forall>(c, t) \<in> set news. pexe_bytes_compiled s \<le> c \<and>
        (t \<noteq> - 1 \<longrightarrow> c < t \<and> \<not> near_end_of_stream e c t)"
    by blast
  then show ?thesis by fastforce
qed

theorem compile_progress_is_monotone_witness:
  "(0 :: int) \<le> 100 \<and> (0 :: int) \<le> 200 \<and> (0 :: int) \<le> 50
   \<and> - (2 ^ 63) \<le> pexe_bytes_compiled translating_example
   \<and> pexe_bytes_compiled translating_example + (100 + 200 + 50) < 2 ^ 63
   \<and> progress_log (compile_progress example_env translating_example
        [(100, 350), (200, 350), (50, 350)]) = [(100, 350), (300, 350)]
   \<and> sorted (map fst (drop (length (progress_log translating_example))
        (progress_log (compile_progress example_env translating_example
           [(100, 350), (200, 350), (50, 350)]))))"
  using compile_progress_is_monotone
    [of "[(100, 350), (200, 350), (50, 350)]" translating_example example_env]
  by (simp add: translating_example_def PnaclCoordinator_def progress_log_def step_def
      BitcodeGotCompiled_def ExpectedProgressKnown_def ShouldDelayProgressEvent_def emit_def
      int64_wrap_def example_env_def Let_def)

text \<open>
  The claim as it was stated, for every sequence with increments that are not negative,
  fails when the counter passes the largest \<^verbatim>\<open>int64_t\<close>: after \<open>2 ^ 63 - 1\<close> bytes, one
  more byte makes \<^verbatim>\<open>pexe_bytes_compiled_ += bytes_compiled\<close> wrap around, and the second
  progress event reports \<open>- (2 ^ 63)\<close> bytes compiled, less than the first.
\<close>

theorem compile_progress_overflow_counterexample:
  "progress_log (compile_progress example_env translating_example
     [(9223372036854775807, - 1), (1, - 1)]) =
     [(9223372036854775807, - 1), (- 9223372036854775808, - 1)]
   \<and> \<not> sorted (map fst (drop (length (progress_log translating_example))
        (progress_log (compile_progress example_env translating_example
           [(9223372036854775807, - 1), (1, - 1)]))))"
  by (simp add: translating_example_def PnaclCoordinator_def progress_log_def step_def
      BitcodeGotCompiled_def ExpectedProgressKnown_def ShouldDelayProgressEvent_def emit_def
      int64_wrap_def example_env_def Let_def)

text \<open>
  Claim C7. Once the expected total is known, a step of the coordinator other than the
  completion of the translation with \<^verbatim>\<open>PP_OK\<close> enqueues only progress events that are
  below the expected total and not near the end of the stream; the event that reports
  bytes compiled equal to the expected total is enqueued by \<^verbatim>\<open>TranslateFinished\<close>, when
  the worker has completed without error.
\<close>

theorem final_progress_event_waits_for_translation:
  "(ev \<noteq> Fire CB_TranslateFinished PP_OK \<longrightarrow>
      (\<forall>(c, t) \<in> set (new_progress e s ev).
         t \<noteq> - 1 \<longrightarrow> c < t \<and> \<not> near_end_of_stream e c t))
   \<and> (fault s = None \<and> CB_TranslateFinished \<in> set (pending s)
        \<and> translate_finish_error s = PP_OK \<and> ExpectedProgressKnown s \<longrightarrow>
      new_progress e s (Fire CB_TranslateFinished PP_OK) =
        [(expected_pexe_size s, expected_pexe_size s)])"
proof -
  have A: "\<forall>(c, t) \<in> set (new_progress e s ev).
         t \<noteq> - 1 \<longrightarrow> c < t \<and> \<not> near_end_of_stream e c t"
    if ne: "ev \<noteq> Fire CB_TranslateFinished PP_OK"
  proof (cases ev)
    case (Fire cb r)
    have "progress_log (step e s ev) = progress_log s"
    proof (cases "cb = CB_TranslateFinished")
      case True
      with ne Fire have "r \<noteq> PP_OK" by simp
      then show ?thesis
        by (simp add: Fire True step_def progress_log_TranslateFinished progress_log_update)
    next
      case False
      then show ?thesis
        by (simp add: Fire step_def progress_log_dispatch progress_log_world progress_log_update)
    qed
    then show ?thesis by (simp add: new_progress_def)
  next
    case (CompileProgress b t)
    have "fault s = None \<and> translate_thread s \<or> step e s ev = s"
      by (auto simp: CompileProgress step_def)
    then show ?thesis
    proof
      assume "fault s = None \<and> translate_thread s"
      then have "step e s ev = BitcodeGotCompiled e s PP_OK b t"
        by (simp add: CompileProgress step_def)
      then show ?thesis
        using progress_log_BitcodeGotCompiled [of e s PP_OK b t]
        by (auto simp: new_progress_def)
    next
      assume "step e s ev = s"
      then show ?thesis by (simp add: new_progress_def)
    qed
  next
    case (StreamData r d)
    then have "progress_log (step e s ev) = progress_log s"
      by (simp add: step_def progress_log_BitcodeStreamGotData)
    then show ?thesis by (simp add: new_progress_def)
  qed
  have B: "new_progress e s (Fire CB_TranslateFinished PP_OK) =
        [(expected_pexe_size s, expected_pexe_size s)]"
    if "fault s = None" "CB_TranslateFinished \<in> set (pending s)"
       "translate_finish_error s = PP_OK" "ExpectedProgressKnown s"
    using that
    by (simp add: new_progress_def step_def progress_log_TranslateFinished progress_log_update
        ExpectedProgressKnown_def)
  from A B show ?thesis by blast
qed

theorem final_progress_event_waits_for_translation_witness:
  "CompileProgress 50 350 \<noteq> Fire CB_TranslateFinished PP_OK
   \<and> new_progress example_env
        (compile_progress example_env translating_example [(100, 350), (200, 350)])
        (CompileProgress 50 350) = []
   \<and> fault (compile_progress example_env translating_example [(100, 350), (200, 350), (50, 350)]) = None
   \<and> new_progress example_env
        (compile_progress example_env translating_example [(100, 350), (200, 350), (50, 350)])
        (Fire CB_TranslateFinished PP_OK) = [(350, 350)]"
  using final_progress_event_waits_for_translation
    [of "CompileProgress 50 350" example_env
        "compile_progress example_env translating_example [(100, 350), (200, 350)]"]
    final_progress_event_waits_for_translation
    [of "Fire CB_TranslateFinished PP_OK" example_env
        "compile_progress example_env translating_example [(100, 350), (200, 350), (50, 350)]"]
  by (simp add: translating_example_def PnaclCoordinator_def progress_log_def step_def
      new_progress_def BitcodeGotCompiled_def ExpectedProgressKnown_def
      ShouldDelayProgressEvent_def int64_wrap_def TranslateFinished_def NexeReadDidOpen_def new_TempFile_def
      emit_def example_env_def Let_def pp_defs)

subsection \<open>Fields after a collaborator call or a new callback\<close>

lemma emit_sel [simp]:
  "translate_finish_error (emit x s) = translate_finish_error s"
  "error_info (emit x s) = error_info s"
  "pexe_url (emit x s) = pexe_url s"
  "cache_validators (emit x s) = cache_validators s"
  "use_new_cache (emit x s) = use_new_cache s"
  "is_cache_hit (emit x s) = is_cache_hit s"
  "error_already_reported (emit x s) = error_already_reported s"
  "off_the_record (emit x s) = off_the_record s"
  "pexe_size (emit x s) = pexe_size s"
  "pexe_bytes_compiled (emit x s) = pexe_bytes_compiled s"
  "expected_pexe_size (emit x s) = expected_pexe_size s"
  "dir_ref (emit x s) = dir_ref s"
  "streaming_downloader (emit x s) = streaming_downloader s"
  "translate_thread (emit x s) = translate_thread s"
  "obj_file (emit x s) = obj_file s"
  "temp_nexe_file (emit x s) = temp_nexe_file s"
  "cached_nexe_file (emit x s) = cached_nexe_file s"
  "translated_fd (emit x s) = translated_fd s"
  "pending (emit x s) = pending s"
  "trace (emit x s) = trace s @ [x]"
  "fault (emit x s) = fault s"
  by (simp_all add: emit_def)

lemma NewCallback_sel [simp]:
  "translate_finish_error (NewCallback cb s) = translate_finish_error s"
  "error_info (NewCallback cb s) = error_info s"
  "pexe_url (NewCallback cb s) = pexe_url s"
  "cache_validators (NewCallback cb s) = cache_validators s"
  "use_new_cache (NewCallback cb s) = use_new_cache s"
  "is_cache_hit (NewCallback cb s) = is_cache_hit s"
  "error_already_reported (NewCallback cb s) = error_already_reported s"
  "off_the_record (NewCallback cb s) = off_the_record s"
  "pexe_size (NewCallback cb s) = pexe_size s"
  "pexe_bytes_compiled (NewCallback cb s) = pexe_bytes_compiled s"
  "expected_pexe_size (NewCallback cb s) = expected_pexe_size s"
  "dir_ref (NewCallback cb s) = dir_ref s"
  "streaming_downloader (NewCallback cb s) = streaming_downloader s"
  "translate_thread (NewCallback cb s) = translate_thread s"
  "obj_file (NewCallback cb s) = obj_file s"
  "temp_nexe_file (NewCallback cb s) = temp_nexe_file s"
  "cached_nexe_file (NewCallback cb s) = cached_nexe_file s"
  "translated_fd (NewCallback cb s) = translated_fd s"
  "pending (NewCallback cb s) = pending s @ [cb]"
  "trace (NewCallback cb s) = trace s"
  "fault (NewCallback cb s) = fault s"
  by (simp_all add: NewCallback_def)

subsection \<open>Invariant: the cache store is not touched\<close>

lemma no_cache_inv_emit:
  "\<not> is_cache_store_op x \<Longrightarrow> no_cache_inv otr (emit x s) = no_cache_inv otr s"
  by (auto simp: no_cache_inv_def)

lemma no_cache_inv_NewCallback:
  "\<not> is_cache_callback cb \<Longrightarrow> no_cache_inv otr (NewCallback cb s) = no_cache_inv otr s"
  by (auto simp: no_cache_inv_def)

lemma no_cache_inv_crash: "no_cache_inv otr (crash f s) = no_cache_inv otr s"
  by (simp add: no_cache_inv_def crash_def)

lemma no_cache_inv_update:
  "no_cache_inv otr (s\<lparr>translate_finish_error := a1\<rparr>) = no_cache_inv otr s"
  "no_cache_inv otr (s\<lparr>error_info := a2\<rparr>) = no_cache_inv otr s"
  "no_cache_inv otr (s\<lparr>cache_validators := a3\<rparr>) = no_cache_inv otr s"
  "no_cache_inv otr (s\<lparr>is_cache_hit := a4\<rparr>) = no_cache_inv otr s"
  "no_cache_inv otr (s\<lparr>pexe_size := a5\<rparr>) = no_cache_inv otr s"
  "no_cache_inv otr (s\<lparr>pexe_bytes_compiled := a6\<rparr>) = no_cache_inv otr s"
  "no_cache_inv otr (s\<lparr>expected_pexe_size := a7\<rparr>) = no_cache_inv otr s"
  "no_cache_inv otr (s\<lparr>dir_ref := a8\<rparr>) = no_cache_inv otr s"
  "no_cache_inv otr (s\<lparr>streaming_downloader := a9\<rparr>) = no_cache_inv otr s"
  "no_cache_inv otr (s\<lparr>translate_thread := a10\<rparr>) = no_cache_inv otr s"
  "no_cache_inv otr (s\<lparr>obj_file := a11\<rparr>) = no_cache_inv otr s"
  "no_cache_inv otr (s\<lparr>temp_nexe_file := a12\<rparr>) = no_cache_inv otr s"
  "no_cache_inv otr (s\<lparr>translated_fd := a14\<rparr>) = no_cache_inv otr s"
  "no_cache_inv otr (s\<lparr>error_already_reported := a16\<rparr>) = no_cache_inv otr s"
  by (simp_all add: no_cache_inv_def)

lemma no_cache_inv_ExitWithError: "no_cache_inv otr s \<Longrightarrow> no_cache_inv otr (ExitWithError s)"
  by (auto simp: no_cache_inv_def ExitWithError_def Let_def)

lemma no_cache_inv_ReportPpapiError:
  "no_cache_inv otr s \<Longrightarrow> no_cache_inv otr (ReportPpapiError s c p m)"
  by (simp add: ReportPpapiError_def no_cache_inv_ExitWithError no_cache_inv_update)

lemma no_cache_inv_ReportNonPpapiError:
  "no_cache_inv otr s \<Longrightarrow> no_cache_inv otr (ReportNonPpapiError s c m)"
  by (simp add: ReportNonPpapiError_def no_cache_inv_ExitWithError no_cache_inv_update)

lemmas no_cache_inv_basic = no_cache_inv_emit no_cache_inv_NewCallback no_cache_inv_crash
  no_cache_inv_update no_cache_inv_ExitWithError no_cache_inv_ReportPpapiError
  no_cache_inv_ReportNonPpapiError

lemma no_cache_inv_NexeReadDidOpen:
  assumes "no_cache_inv otr s"
  shows "no_cache_inv otr (NexeReadDidOpen s r)"
proof -
  from assms have "cached_nexe_file s = None"
    by (simp add: no_cache_inv_def)
  with assms show ?thesis
    by (auto simp: NexeReadDidOpen_def Let_def no_cache_inv_basic  split: option.splits)
qed

lemma no_cache_inv_TranslateFinished:
  assumes "no_cache_inv otr s"
  shows "no_cache_inv otr (TranslateFinished e s r)"
proof -
  from assms have "cached_nexe_file s = None"
    by (simp add: no_cache_inv_def)
  with assms show ?thesis
    by (auto simp: TranslateFinished_def Let_def no_cache_inv_basic no_cache_inv_NexeReadDidOpen split: option.splits)
qed

lemma no_cache_inv_BitcodeGotCompiled:
  assumes "no_cache_inv otr s"
  shows "no_cache_inv otr (BitcodeGotCompiled e s r b t)"
proof -
  from assms have "cached_nexe_file s = None"
    by (simp add: no_cache_inv_def)
  with assms show ?thesis
    by (auto simp: BitcodeGotCompiled_def Let_def no_cache_inv_basic )
qed

lemma no_cache_inv_BitcodeStreamDidFinish:
  assumes "no_cache_inv otr s"
  shows "no_cache_inv otr (BitcodeStreamDidFinish s r)"
proof -
  from assms have "cached_nexe_file s = None"
    by (simp add: no_cache_inv_def)
  with assms show ?thesis
    by (auto simp: BitcodeStreamDidFinish_def Let_def no_cache_inv_basic )
qed

lemma no_cache_inv_BitcodeStreamGotData:
  assumes "no_cache_inv otr s"
  shows "no_cache_inv otr (BitcodeStreamGotData s r d)"
proof -
  from assms have "cached_nexe_file s = None"
    by (simp add: no_cache_inv_def)
  with assms show ?thesis
    by (auto simp: BitcodeStreamGotData_def Let_def no_cache_inv_basic )
qed

lemma no_cache_inv_CachedFileDidOpen:
  assumes "no_cache_inv otr s"
  shows "no_cache_inv otr (CachedFileDidOpen s r)"
proof -
  from assms have "cached_nexe_file s = None"
    by (simp add: no_cache_inv_def)
  with assms show ?thesis
    by (auto simp: CachedFileDidOpen_def Let_def no_cache_inv_basic no_cache_inv_NexeReadDidOpen)
qed

lemma no_cache_inv_OpenBitcodeStream:
  assumes "no_cache_inv otr s"
  shows "no_cache_inv otr (OpenBitcodeStream e s)"
proof -
  from assms have "cached_nexe_file s = None"
    by (simp add: no_cache_inv_def)
  with assms show ?thesis
    by (auto simp: OpenBitcodeStream_def Let_def no_cache_inv_basic )
qed

lemma no_cache_inv_DirectoryWasCreated:
  assumes "no_cache_inv otr s"
  shows "no_cache_inv otr (DirectoryWasCreated e s r)"
proof -
  from assms have "cached_nexe_file s = None"
    by (simp add: no_cache_inv_def)
  with assms show ?thesis
    by (auto simp: DirectoryWasCreated_def Let_def no_cache_inv_basic no_cache_inv_OpenBitcodeStream)
qed

lemma no_cache_inv_FileSystemDidOpen:
  assumes "no_cache_inv otr s"
  shows "no_cache_inv otr (FileSystemDidOpen s r)"
proof -
  from assms have "cached_nexe_file s = None"
    by (simp add: no_cache_inv_def)
  with assms show ?thesis
    by (auto simp: FileSystemDidOpen_def Let_def no_cache_inv_basic )
qed

lemma no_cache_inv_ResourcesDidLoad:
  assumes "no_cache_inv otr s"
  shows "no_cache_inv otr (ResourcesDidLoad e s r)"
proof -
  from assms have "cached_nexe_file s = None"
    by (simp add: no_cache_inv_def)
  with assms show ?thesis
    by (auto simp: ResourcesDidLoad_def Let_def no_cache_inv_basic no_cache_inv_OpenBitcodeStream)
qed

lemma no_cache_inv_ResourceInfoWasRead:
  assumes "no_cache_inv otr s"
  shows "no_cache_inv otr (ResourceInfoWasRead s r)"
proof -
  from assms have "cached_nexe_file s = None"
    by (simp add: no_cache_inv_def)
  with assms show ?thesis
    by (auto simp: ResourceInfoWasRead_def Let_def no_cache_inv_basic )
qed

lemma no_cache_inv_ObjectFileDidOpen:
  assumes "no_cache_inv otr s"
  shows "no_cache_inv otr (ObjectFileDidOpen s r)"
proof -
  from assms have "cached_nexe_file s = None"
    by (simp add: no_cache_inv_def)
  with assms show ?thesis
    by (auto simp: ObjectFileDidOpen_def Let_def no_cache_inv_basic  split: option.splits)
qed

lemma no_cache_inv_RunTranslate:
  assumes "no_cache_inv otr s"
  shows "no_cache_inv otr (RunTranslate s r)"
proof -
  from assms have "cached_nexe_file s = None"
    by (simp add: no_cache_inv_def)
  with assms show ?thesis
    by (auto simp: RunTranslate_def Let_def no_cache_inv_basic )
qed

lemma no_cache_inv_BitcodeStreamDidOpen:
  assumes "no_cache_inv otr s" and "caching_disabled e otr"
  shows "no_cache_inv otr (BitcodeStreamDidOpen e s r)"
proof -
  from assms have "off_the_record s \<or> response_no_store e \<or> response_validators e = []"
    by (auto simp: no_cache_inv_def caching_disabled_def)
  with assms(1) show ?thesis
    by (auto simp: BitcodeStreamDidOpen_def Let_def no_cache_inv_basic
        no_cache_inv_BitcodeStreamDidFinish no_cache_inv_TranslateFinished
        no_cache_inv_CachedFileDidOpen)
qed

lemma no_cache_inv_world:
  "cached_nexe_file s = None \<Longrightarrow> no_cache_inv otr (world e cb r s) = no_cache_inv otr s"
  by (cases cb) (simp_all add: no_cache_inv_def)

lemma no_cache_inv_remove1:
  "no_cache_inv otr s \<Longrightarrow> no_cache_inv otr (s\<lparr>pending := remove1 cb (pending s)\<rparr>)"
  by (auto simp: no_cache_inv_def dest: notin_set_remove1)

lemma no_cache_inv_dispatch:
  assumes "no_cache_inv otr s" and "caching_disabled e otr" and "\<not> is_cache_callback cb"
  shows "no_cache_inv otr (dispatch e cb r s)"
  using assms
  by (cases cb)
     (simp_all add: no_cache_inv_NexeReadDidOpen no_cache_inv_TranslateFinished
        no_cache_inv_BitcodeStreamDidFinish no_cache_inv_BitcodeStreamDidOpen
        no_cache_inv_DirectoryWasCreated no_cache_inv_FileSystemDidOpen no_cache_inv_ResourcesDidLoad
        no_cache_inv_ResourceInfoWasRead no_cache_inv_ObjectFileDidOpen no_cache_inv_RunTranslate)

lemma no_cache_inv_step:
  assumes "no_cache_inv otr s" and "caching_disabled e otr"
  shows "no_cache_inv otr (step e s ev)"
proof (cases ev)
  case (Fire cb r)
  show ?thesis
  proof (cases "fault s = None \<and> cb \<in> set (pending s)")
    case True
    with assms(1) have cb: "\<not> is_cache_callback cb"
      by (auto simp: no_cache_inv_def)
    let ?s0 = "s\<lparr>pending := remove1 cb (pending s)\<rparr>"
    have "no_cache_inv otr ?s0"
      using assms(1) by (rule no_cache_inv_remove1)
    moreover have "cached_nexe_file ?s0 = None"
      using assms(1) by (simp add: no_cache_inv_def)
    ultimately have "no_cache_inv otr (world e cb r ?s0)"
      by (simp add: no_cache_inv_world)
    then have "no_cache_inv otr (dispatch e cb r (world e cb r ?s0))"
      using assms(2) cb by (rule no_cache_inv_dispatch)
    with True show ?thesis by (simp add: Fire step_def)
  next
    case False
    then have "step e s ev = s" by (auto simp: Fire step_def)
    with assms(1) show ?thesis by simp
  qed
next
  case (CompileProgress b t)
  with assms(1) show ?thesis
    by (simp add: step_def no_cache_inv_BitcodeGotCompiled)
next
  case (StreamData r d)
  with assms(1) show ?thesis
    by (simp add: step_def no_cache_inv_BitcodeStreamGotData)
qed

lemma no_cache_inv_run:
  "no_cache_inv otr s \<Longrightarrow> caching_disabled e otr \<Longrightarrow> no_cache_inv otr (run e s evs)"
  by (induction evs arbitrary: s) (simp_all add: no_cache_inv_step)

lemma no_cache_inv_BitcodeToNative: "no_cache_inv otr (BitcodeToNative url v nc otr)"
  by (simp add: BitcodeToNative_def no_cache_inv_def PnaclCoordinator_def)

subsection \<open>Invariant: the files of a pending translation exist\<close>

lemma translation_inv_emit: "translation_inv (emit x s) = translation_inv s"
  by (simp add: translation_inv_def)

lemma translation_inv_NewCallback:
  "cb \<noteq> CB_RunTranslate \<Longrightarrow> cb \<noteq> CB_TranslateFinished \<Longrightarrow>
   translation_inv (NewCallback cb s) = translation_inv s"
  by (auto simp: translation_inv_def)

lemma translation_inv_crash: "translation_inv (crash f s) = translation_inv s"
  by (simp add: translation_inv_def crash_def)

lemma translation_inv_update:
  "translation_inv (s\<lparr>translate_finish_error := a1\<rparr>) = translation_inv s"
  "translation_inv (s\<lparr>error_info := a2\<rparr>) = translation_inv s"
  "translation_inv (s\<lparr>cache_validators := a3\<rparr>) = translation_inv s"
  "translation_inv (s\<lparr>is_cache_hit := a4\<rparr>) = translation_inv s"
  "translation_inv (s\<lparr>pexe_size := a5\<rparr>) = translation_inv s"
  "translation_inv (s\<lparr>pexe_bytes_compiled := a6\<rparr>) = translation_inv s"
  "translation_inv (s\<lparr>expected_pexe_size := a7\<rparr>) = translation_inv s"
  "translation_inv (s\<lparr>dir_ref := a8\<rparr>) = translation_inv s"
  "translation_inv (s\<lparr>streaming_downloader := a9\<rparr>) = translation_inv s"
  "translation_inv (s\<lparr>obj_file := a11\<rparr>) = translation_inv s"
  "translation_inv (s\<lparr>cached_nexe_file := a13\<rparr>) = translation_inv s"
  "translation_inv (s\<lparr>translated_fd := a14\<rparr>) = translation_inv s"
  "translation_inv (s\<lparr>error_already_reported := a16\<rparr>) = translation_inv s"
  by (simp_all add: translation_inv_def)

lemma translation_inv_temp:
  "translation_inv s \<Longrightarrow> translation_inv (s\<lparr>temp_nexe_file := Some f\<rparr>)"
  by (simp add: translation_inv_def)

lemma translation_inv_thread:
  "translation_inv s \<Longrightarrow> translation_inv (s\<lparr>translate_thread := True\<rparr>)"
  by (simp add: translation_inv_def)

lemma translation_inv_ExitWithError: "translation_inv (ExitWithError s)"
  by (simp add: translation_inv_def ExitWithError_pending)

lemma translation_inv_ReportPpapiError: "translation_inv (ReportPpapiError s c p m)"
  by (simp add: ReportPpapiError_def translation_inv_ExitWithError)

lemma translation_inv_ReportNonPpapiError: "translation_inv (ReportNonPpapiError s c m)"
  by (simp add: ReportNonPpapiError_def translation_inv_ExitWithError)

lemmas translation_inv_basic = translation_inv_emit translation_inv_NewCallback
  translation_inv_crash translation_inv_update translation_inv_temp translation_inv_thread
  translation_inv_ExitWithError translation_inv_ReportPpapiError translation_inv_ReportNonPpapiError

lemma translation_inv_OpenBitcodeStream:
  "translation_inv s \<Longrightarrow> translation_inv (OpenBitcodeStream e s)"
  by (cases "translate_thread_allocated e")
     (auto simp: OpenBitcodeStream_def Let_def translation_inv_basic)

lemma translation_inv_NexeFdDidOpen:
  "translation_inv s \<Longrightarrow> translation_inv (NexeFdDidOpen e s r)"
  by (auto simp: NexeFdDidOpen_def Let_def translation_inv_basic)

lemma translation_inv_ObjectFileDidOpen:
  "translation_inv s \<Longrightarrow> translation_inv (ObjectFileDidOpen s r)"
  by (auto simp: ObjectFileDidOpen_def Let_def translation_inv_def crash_def
      ReportPpapiError_pending split: option.splits)

lemma translation_inv_RunTranslate:
  "translation_inv s \<Longrightarrow> temp_nexe_file s \<noteq> None \<Longrightarrow> translation_inv (RunTranslate s r)"
  by (auto simp: RunTranslate_def translation_inv_def crash_def)

lemma translation_inv_NexeReadDidOpen:
  "translation_inv s \<Longrightarrow> translation_inv (NexeReadDidOpen s r)"
  by (auto simp: NexeReadDidOpen_def Let_def translation_inv_basic  split: option.splits)

lemma translation_inv_NexeFileWasRenamed:
  "translation_inv s \<Longrightarrow> translation_inv (NexeFileWasRenamed s r)"
  by (auto simp: NexeFileWasRenamed_def Let_def translation_inv_basic  split: option.splits)

lemma translation_inv_CorruptCacheFileWasDeleted:
  "translation_inv s \<Longrightarrow> translation_inv (CorruptCacheFileWasDeleted s d r)"
  by (auto simp: CorruptCacheFileWasDeleted_def Let_def translation_inv_basic )

lemma translation_inv_NexeWasCopiedToCache:
  "translation_inv s \<Longrightarrow> translation_inv (NexeWasCopiedToCache e s r)"
  by (auto simp: NexeWasCopiedToCache_def Let_def translation_inv_basic  split: option.splits)

lemma translation_inv_CopyNextChunk:
  "translation_inv s \<Longrightarrow> translation_inv (CopyNextChunk e s off)"
  by (auto simp: CopyNextChunk_def Let_def translation_inv_basic translation_inv_NexeWasCopiedToCache split: option.splits prod.splits)

lemma translation_inv_DidCopyNexeToCachePartial:
  "translation_inv s \<Longrightarrow> translation_inv (DidCopyNexeToCachePartial e s r n off)"
  by (auto simp: DidCopyNexeToCachePartial_def Let_def translation_inv_basic translation_inv_NexeWasCopiedToCache translation_inv_CopyNextChunk split: option.splits prod.splits)

lemma translation_inv_CachedNexeOpenedForWrite:
  "translation_inv s \<Longrightarrow> translation_inv (CachedNexeOpenedForWrite e s r)"
  by (auto simp: CachedNexeOpenedForWrite_def Let_def translation_inv_basic translation_inv_CopyNextChunk)

lemma translation_inv_TranslateFinished:
  "translation_inv s \<Longrightarrow> translation_inv (TranslateFinished e s r)"
  by (auto simp: TranslateFinished_def Let_def translation_inv_basic translation_inv_NexeReadDidOpen split: option.splits)

lemma translation_inv_BitcodeGotCompiled:
  "translation_inv s \<Longrightarrow> translation_inv (BitcodeGotCompiled e s r b t)"
  by (auto simp: BitcodeGotCompiled_def Let_def translation_inv_basic )

lemma translation_inv_BitcodeStreamDidFinish:
  "translation_inv s \<Longrightarrow> translation_inv (BitcodeStreamDidFinish s r)"
  by (auto simp: BitcodeStreamDidFinish_def Let_def translation_inv_basic )

lemma translation_inv_BitcodeStreamGotData:
  "translation_inv s \<Longrightarrow> translation_inv (BitcodeStreamGotData s r d)"
  by (auto simp: BitcodeStreamGotData_def Let_def translation_inv_basic )

lemma translation_inv_CachedFileDidOpen:
  "translation_inv s \<Longrightarrow> translation_inv (CachedFileDidOpen s r)"
  by (auto simp: CachedFileDidOpen_def Let_def translation_inv_basic translation_inv_NexeReadDidOpen)

lemma translation_inv_BitcodeStreamDidOpen:
  "translation_inv s \<Longrightarrow> translation_inv (BitcodeStreamDidOpen e s r)"
  by (auto simp: BitcodeStreamDidOpen_def Let_def translation_inv_basic translation_inv_BitcodeStreamDidFinish translation_inv_TranslateFinished translation_inv_CachedFileDidOpen)

lemma translation_inv_DirectoryWasCreated:
  "translation_inv s \<Longrightarrow> translation_inv (DirectoryWasCreated e s r)"
  by (auto simp: DirectoryWasCreated_def Let_def translation_inv_basic translation_inv_OpenBitcodeStream)

lemma translation_inv_FileSystemDidOpen:
  "translation_inv s \<Longrightarrow> translation_inv (FileSystemDidOpen s r)"
  by (auto simp: FileSystemDidOpen_def Let_def translation_inv_basic )

lemma translation_inv_ResourcesDidLoad:
  "translation_inv s \<Longrightarrow> translation_inv (ResourcesDidLoad e s r)"
  by (auto simp: ResourcesDidLoad_def Let_def translation_inv_basic translation_inv_OpenBitcodeStream)

lemma translation_inv_ResourceInfoWasRead:
  "translation_inv s \<Longrightarrow> translation_inv (ResourceInfoWasRead s r)"
  by (auto simp: ResourceInfoWasRead_def Let_def translation_inv_basic )

lemma translation_inv_world: "translation_inv (world e cb r s) = translation_inv s"
  by (cases cb) (auto simp: translation_inv_def)

lemma translation_inv_remove1:
  "translation_inv s \<Longrightarrow> translation_inv (s\<lparr>pending := remove1 cb (pending s)\<rparr>)"
  by (auto simp: translation_inv_def dest: notin_set_remove1)

lemma temp_nexe_file_world:
  "temp_nexe_file s \<noteq> None \<Longrightarrow> temp_nexe_file (world e cb r s) \<noteq> None"
  by (cases cb) auto

lemma translation_inv_dispatch:
  assumes "translation_inv s" and "cb = CB_RunTranslate \<longrightarrow> temp_nexe_file s \<noteq> None"
  shows "translation_inv (dispatch e cb r s)"
  using assms
  by (cases cb)
     (simp_all add: translation_inv_NexeReadDidOpen translation_inv_NexeFileWasRenamed
        translation_inv_CorruptCacheFileWasDeleted translation_inv_DidCopyNexeToCachePartial
        translation_inv_CachedNexeOpenedForWrite translation_inv_TranslateFinished
        translation_inv_BitcodeStreamDidFinish translation_inv_CachedFileDidOpen
        translation_inv_NexeFdDidOpen translation_inv_BitcodeStreamDidOpen
        translation_inv_DirectoryWasCreated translation_inv_FileSystemDidOpen
        translation_inv_ResourcesDidLoad translation_inv_ResourceInfoWasRead
        translation_inv_ObjectFileDidOpen translation_inv_RunTranslate)

lemma translation_inv_step:
  assumes "translation_inv s"
  shows "translation_inv (step e s ev)"
proof (cases ev)
  case (Fire cb r)
  show ?thesis
  proof (cases "fault s = None \<and> cb \<in> set (pending s)")
    case True
    let ?s0 = "s\<lparr>pending := remove1 cb (pending s)\<rparr>"
    have inv0: "translation_inv (world e cb r ?s0)"
      using assms by (simp add: translation_inv_world translation_inv_remove1)
    have "cb = CB_RunTranslate \<longrightarrow> temp_nexe_file (world e cb r ?s0) \<noteq> None"
      using assms True by (auto simp: translation_inv_def intro: temp_nexe_file_world)
    with inv0 have "translation_inv (dispatch e cb r (world e cb r ?s0))"
      by (rule translation_inv_dispatch)
    with True show ?thesis by (simp add: Fire step_def)
  next
    case False
    then have "step e s ev = s" by (auto simp: Fire step_def)
    with assms show ?thesis by simp
  qed
next
  case (CompileProgress b t)
  with assms show ?thesis
    by (simp add: step_def translation_inv_BitcodeGotCompiled)
next
  case (StreamData r d)
  with assms show ?thesis
    by (simp add: step_def translation_inv_BitcodeStreamGotData)
qed

lemma translation_inv_run: "translation_inv s \<Longrightarrow> translation_inv (run e s evs)"
  by (induction evs arbitrary: s) (simp_all add: translation_inv_step)

lemma translation_inv_BitcodeToNative: "translation_inv (BitcodeToNative url v nc otr)"
  by (simp add: BitcodeToNative_def translation_inv_def PnaclCoordinator_def)

subsection \<open>Handing over the translated nexe\<close>

lemma NexeReadDidOpen_temp:
  assumes "cached_nexe_file s = None" and "temp_nexe_file s = Some f"
  shows "NexeReadDidOpen s PP_OK =
           emit (TranslateNotifyCallback_Run PP_OK) (s\<lparr>translated_fd := Some f\<rparr>)"
  using assms by (simp add: NexeReadDidOpen_def)


lemma TranslateFinished_without_cache:
  assumes "translate_finish_error s = PP_OK" and "translate_thread s"
    and "temp_nexe_file s = Some f" and "cached_nexe_file s = None"
  shows "trace (TranslateFinished e s PP_OK) =
           trace s
           @ (if ExpectedProgressKnown s
              then [Plugin_EnqueueProgressEvent (pexe_url s) LENGTH_IS_COMPUTABLE
                      (expected_pexe_size s) (expected_pexe_size s)]
              else [])
           @ [TempNexeFile_Reset]
           @ (if use_new_cache s then [Plugin_ReportTranslationFinished] else [])
           @ [TranslateNotifyCallback_Run PP_OK]"
    and "translated_fd (TranslateFinished e s PP_OK) = Some (f\<lparr>d_pos := 0\<rparr>)"
  using assms
  by (simp_all add: TranslateFinished_def Let_def NexeReadDidOpen_temp)

lemma step_TranslateFinished_without_cache:
  assumes "fault s = None" and "CB_TranslateFinished \<in> set (pending s)"
    and "translate_finish_error s = PP_OK" and "translate_thread s"
    and "temp_nexe_file s = Some f" and "cached_nexe_file s = None"
  shows "trace (step e s (Fire CB_TranslateFinished PP_OK)) =
           trace s
           @ (if ExpectedProgressKnown s
              then [Plugin_EnqueueProgressEvent (pexe_url s) LENGTH_IS_COMPUTABLE
                      (expected_pexe_size s) (expected_pexe_size s)]
              else [])
           @ [TempNexeFile_Reset]
           @ (if use_new_cache s then [Plugin_ReportTranslationFinished] else [])
           @ [TranslateNotifyCallback_Run PP_OK]"
    and "translated_fd (step e s (Fire CB_TranslateFinished PP_OK)) =
           Some (f\<lparr>d_data := nexe_output e, d_pos := 0\<rparr>)"
proof -
  let ?s0 = "world e CB_TranslateFinished PP_OK
               (s\<lparr>pending := remove1 CB_TranslateFinished (pending s)\<rparr>)"
  have eq: "step e s (Fire CB_TranslateFinished PP_OK) = TranslateFinished e ?s0 PP_OK"
    using assms(1,2) by (simp add: step_def)
  have s0: "translate_finish_error ?s0 = PP_OK" "translate_thread ?s0"
    "temp_nexe_file ?s0 = Some (f\<lparr>d_data := nexe_output e, d_pos := int (length (nexe_output e))\<rparr>)"
    "cached_nexe_file ?s0 = None" "trace ?s0 = trace s" "pexe_url ?s0 = pexe_url s"
    "expected_pexe_size ?s0 = expected_pexe_size s" "use_new_cache ?s0 = use_new_cache s"
    using assms(3-6) by simp_all
  show "trace (step e s (Fire CB_TranslateFinished PP_OK)) =
           trace s
           @ (if ExpectedProgressKnown s
              then [Plugin_EnqueueProgressEvent (pexe_url s) LENGTH_IS_COMPUTABLE
                      (expected_pexe_size s) (expected_pexe_size s)]
              else [])
           @ [TempNexeFile_Reset]
           @ (if use_new_cache s then [Plugin_ReportTranslationFinished] else [])
           @ [TranslateNotifyCallback_Run PP_OK]"
    unfolding eq TranslateFinished_without_cache(1) [OF s0(1-4)]
    by (simp add: s0(5-8) ExpectedProgressKnown_def)
  show "translated_fd (step e s (Fire CB_TranslateFinished PP_OK)) =
           Some (f\<lparr>d_data := nexe_output e, d_pos := 0\<rparr>)"
    unfolding eq TranslateFinished_without_cache(2) [OF s0(1-4)]
    by simp
qed

lemma run_append: "run e s (evs @ evs') = run e (run e s evs) evs'"
  by (induction evs arbitrary: s) simp_all

lemmas handler_defs =
  BitcodeToNative_def PnaclCoordinator_def step_def ResourceInfoWasRead_def ResourcesDidLoad_def
  FileSystemDidOpen_def DirectoryWasCreated_def OpenBitcodeStream_def ObjectFileDidOpen_def
  BitcodeStreamDidOpen_def CachedFileDidOpen_def RunTranslate_def BitcodeStreamGotData_def
  BitcodeStreamDidFinish_def TranslateFinished_def NexeReadDidOpen_def NexeFileWasRenamed_def
  ExpectedProgressKnown_def new_TempFile_def new_LocalTempFile_def opened_for_read_def
  emit_def NewCallback_def Let_def

text \<open>
  Claim C6. In every run of a request with caching disabled (off the record, or a
  response with \<^verbatim>\<open>no-store\<close> or without cache validators) the coordinator makes no call
  on the cache store: no cache file is opened, written, renamed or deleted. When the
  translation of such a request completes with \<^verbatim>\<open>PP_OK\<close> and no earlier error, the
  completion callback is run with \<^verbatim>\<open>PP_OK\<close> and the handle handed over is the read
  wrapper of the temporary nexe file, holding the translator's output, at offset 0.
\<close>

theorem caching_disabled_skips_cache_store:
  assumes "otr \<or> response_no_store e \<or> response_validators e = []"
  shows "(\<forall>x \<in> set (trace (run e (BitcodeToNative url validators new_cache otr) evs)).
            \<not> is_cache_store_op x)
    \<and> (fault (run e (BitcodeToNative url validators new_cache otr) evs) = None
        \<and> CB_TranslateFinished \<in> set (pending (run e (BitcodeToNative url validators new_cache otr) evs))
        \<and> translate_finish_error (run e (BitcodeToNative url validators new_cache otr) evs) = PP_OK
        \<longrightarrow>
          last (trace (run e (BitcodeToNative url validators new_cache otr)
                         (evs @ [Fire CB_TranslateFinished PP_OK])))
            = TranslateNotifyCallback_Run PP_OK
          \<and> map_option d_data
               (translated_fd (run e (BitcodeToNative url validators new_cache otr)
                                 (evs @ [Fire CB_TranslateFinished PP_OK])))
               = Some (nexe_output e)
          \<and> map_option d_pos
               (translated_fd (run e (BitcodeToNative url validators new_cache otr)
                                 (evs @ [Fire CB_TranslateFinished PP_OK])))
               = Some 0
          \<and> (\<forall>x \<in> set (trace (run e (BitcodeToNative url validators new_cache otr)
                                   (evs @ [Fire CB_TranslateFinished PP_OK]))).
                \<not> is_cache_store_op x))"
proof -
  let ?s = "run e (BitcodeToNative url validators new_cache otr) evs"
  let ?s' = "run e (BitcodeToNative url validators new_cache otr)
               (evs @ [Fire CB_TranslateFinished PP_OK])"
  have dis: "caching_disabled e otr"
    using assms by (simp add: caching_disabled_def)
  have run_snoc: "?s' = step e ?s (Fire CB_TranslateFinished PP_OK)"
    by (simp add: run_append)
  have J: "no_cache_inv otr ?s" and J': "no_cache_inv otr ?s'"
    using dis by (simp_all add: no_cache_inv_run no_cache_inv_BitcodeToNative)
  have K: "translation_inv ?s"
    by (simp add: translation_inv_run translation_inv_BitcodeToNative)
  have none: "\<forall>x \<in> set (trace ?s). \<not> is_cache_store_op x"
    and none': "\<forall>x \<in> set (trace ?s'). \<not> is_cache_store_op x"
    using J J' by (simp_all add: no_cache_inv_def)
  have deliver: "last (trace ?s') = TranslateNotifyCallback_Run PP_OK
      \<and> map_option d_data (translated_fd ?s') = Some (nexe_output e)
      \<and> map_option d_pos (translated_fd ?s') = Some 0"
    if h: "fault ?s = None" "CB_TranslateFinished \<in> set (pending ?s)"
          "translate_finish_error ?s = PP_OK"
  proof -
    from K h(2) obtain f where f: "temp_nexe_file ?s = Some f" and th: "translate_thread ?s"
      by (auto simp: translation_inv_def)
    from J have c: "cached_nexe_file ?s = None"
      by (simp add: no_cache_inv_def)
    from step_TranslateFinished_without_cache [OF h(1) h(2) h(3) th f c, of e]
    show ?thesis
      unfolding run_snoc by simp
  qed
  from none none' deliver show ?thesis by blast
qed

theorem caching_disabled_skips_cache_store_witness:
  "fault (run example_env (BitcodeToNative ''U'' [] False True) off_the_record_events) = None
   \<and> CB_TranslateFinished \<in>
       set (pending (run example_env (BitcodeToNative ''U'' [] False True) off_the_record_events))
   \<and> translate_finish_error
       (run example_env (BitcodeToNative ''U'' [] False True) off_the_record_events) = PP_OK
   \<and> trace (run example_env (BitcodeToNative ''U'' [] False True)
        (off_the_record_events @ [Fire CB_TranslateFinished PP_OK])) =
       [Resources_ReadResourceInfo, Resources_StartLoad, ObjFile_Open, Downloader_OpenStream ''U'',
        TempNexeFile_Open True, Downloader_FinishStreaming, TranslateThread_RunTranslate,
        TranslateThread_PutBytes, TempNexeFile_Reset, TranslateNotifyCallback_Run PP_OK]
   \<and> map_option d_data
       (translated_fd (run example_env (BitcodeToNative ''U'' [] False True)
          (off_the_record_events @ [Fire CB_TranslateFinished PP_OK]))) = Some [1, 2, 3]"
  using caching_disabled_skips_cache_store
    [of True example_env "''U''" "[]" False off_the_record_events]
  by (simp add: off_the_record_events_def handler_defs example_env_def pp_defs)

subsection \<open>Invariant: the temporary nexe file is at its start when it is handed over\<close>












































end
